theory Spec2Isabelle
  imports Main "HOL-Library.Word" "HOL-Library.AList"
begin

section \<open>Machine integers and durations\<close>

text \<open>
  Go's \<open>int64\<close> is a 64-bit word read as two's complement; \<open>time.Duration\<close> is an
  \<open>int64\<close> count of nanoseconds and \<open>time.Second\<close> is \<open>1000000000\<close> of them.
  Arithmetic on both wraps around.
\<close>

type_synonym int64 = "64 word"
type_synonym Duration = "64 word"

definition Second :: Duration where
  "Second = 1000000000"

section \<open>HTTP vocabulary shared by the handlers\<close>

text \<open>
  \<open>http.Header\<close> maps a canonical header name to its values. \<open>Set\<close> replaces the values of
  a key by the single given one, \<open>Get\<close> returns the first value or the empty string. Every
  key the program passes is a literal in canonical form already, and the server stores the
  names of an inbound request in canonical form, so the canonicalisation of keys is the
  identity on all keys that occur.
\<close>

type_synonym Header = "string \<rightharpoonup> string list"

definition Header_Set :: "Header \<Rightarrow> string \<Rightarrow> string \<Rightarrow> Header" where
  "Header_Set h k v = h(k \<mapsto> [v])"

definition Header_Get :: "Header \<Rightarrow> string \<Rightarrow> string" where
  "Header_Get h k = (case h k of None \<Rightarrow> [] | Some [] \<Rightarrow> [] | Some (v # vs) \<Rightarrow> v)"

record Request =
  Method :: string
  URL :: string
  Header :: Header

text \<open>
  The calls a handler makes on an \<open>http.ResponseWriter\<close>. The writer handed to a handler is
  modelled by the calls it has received so far, oldest first; what the server puts on the
  wire for them is the library's business.
\<close>

datatype rw_call = WriteHeader_call int | Write_call string

record ResponseWriter =
  calls :: "rw_call list"

definition ResponseWriter_WriteHeader :: "int \<Rightarrow> ResponseWriter \<Rightarrow> ResponseWriter" where
  "ResponseWriter_WriteHeader c w = w\<lparr>calls := calls w @ [WriteHeader_call c]\<rparr>"

definition ResponseWriter_Write :: "string \<Rightarrow> ResponseWriter \<Rightarrow> ResponseWriter" where
  "ResponseWriter_Write b w = w\<lparr>calls := calls w @ [Write_call b]\<rparr>"

fun is_WriteHeader :: "rw_call \<Rightarrow> bool" where
  "is_WriteHeader (WriteHeader_call c) = True"
| "is_WriteHeader (Write_call b) = False"

definition StatusOK :: int where
  "StatusOK = 200"

definition StatusUnauthorized :: int where
  "StatusUnauthorized = 401"

definition StatusServiceUnavailable :: int where
  "StatusServiceUnavailable = 503"

text \<open>
  \<open>http.Error(w, error, code)\<close> writes the status and then the message followed by a
  newline.
\<close>

definition http_Error :: "ResponseWriter \<Rightarrow> string \<Rightarrow> int \<Rightarrow> ResponseWriter" where
  "http_Error w msg c = ResponseWriter_Write (msg @ [CHR 0x0A]) (ResponseWriter_WriteHeader c w)"

section \<open>StatusCodeTracker\<close>

text \<open>
  \<open>StatusCodeTracker\<close> embeds the writer it wraps and keeps \<open>code\<close>, 0 while no status has
  been seen.
\<close>

record StatusCodeTracker =
  ResponseWriter :: ResponseWriter
  code :: int

definition TrackStatusCode :: "ResponseWriter \<Rightarrow> StatusCodeTracker" where
  "TrackStatusCode w = \<lparr>ResponseWriter = w, code = 0\<rparr>"

definition WriteHeader :: "int \<Rightarrow> StatusCodeTracker \<Rightarrow> StatusCodeTracker" where
  "WriteHeader c s =
     (if code s \<noteq> 0 then s
      else s\<lparr>code := c, ResponseWriter := ResponseWriter_WriteHeader c (ResponseWriter s)\<rparr>)"

definition Write :: "string \<Rightarrow> StatusCodeTracker \<Rightarrow> StatusCodeTracker" where
  "Write b s =
     (let s1 = (if code s = 0 then s\<lparr>code := StatusOK\<rparr> else s)
      in s1\<lparr>ResponseWriter := ResponseWriter_Write b (ResponseWriter s1)\<rparr>)"

definition Unwrap :: "StatusCodeTracker \<Rightarrow> ResponseWriter" where
  "Unwrap s = ResponseWriter s"

text \<open>A handler that is given the tracker makes a sequence of calls on it.\<close>

fun tracker_call :: "rw_call \<Rightarrow> StatusCodeTracker \<Rightarrow> StatusCodeTracker" where
  "tracker_call (WriteHeader_call c) s = WriteHeader c s"
| "tracker_call (Write_call b) s = Write b s"

fun tracker_calls :: "rw_call list \<Rightarrow> StatusCodeTracker \<Rightarrow> StatusCodeTracker" where
  "tracker_calls [] s = s"
| "tracker_calls (x # xs) s = tracker_calls xs (tracker_call x s)"

section \<open>JSON values and decoding into structs\<close>

text \<open>
  The bytes handed to \<open>json.Unmarshal\<close> are represented by what the decoder's scanner makes
  of them: \<open>Unparseable\<close> when they are not a JSON text, otherwise the value they denote.
  A number literal is \<open>JInt\<close> when it is written as an integer and \<open>JFrac\<close> (with its
  text) when it has a fraction or an exponent. The members of an object are kept in the
  order of the text, duplicates included.
\<close>

datatype json =
    JNull
  | JBool bool
  | JInt int
  | JFrac string
  | JString string
  | JArray "json list"
  | JObject "(string \<times> json) list"

datatype body = Unparseable | Parsed json

text \<open>
  Storing one JSON value into a field of a Go type. \<open>None\<close> is an
  \<open>UnmarshalTypeError\<close>. \<open>null\<close> leaves an \<open>int64\<close> or a \<open>string\<close> as it is; an
  \<open>int64\<close> takes an integer literal that fits 64 bits; a \<open>string\<close> takes a JSON string.
\<close>

fun store_int64 :: "json \<Rightarrow> int64 \<Rightarrow> int64 option" where
  "store_int64 JNull old = Some old"
| "store_int64 (JInt n) old =
     (if - (2 ^ 63) \<le> n \<and> n < 2 ^ 63 then Some (word_of_int n) else None)"
| "store_int64 v old = None"

fun store_string :: "json \<Rightarrow> string \<Rightarrow> string option" where
  "store_string JNull old = Some old"
| "store_string (JString s) old = Some s"
| "store_string v old = None"

text \<open>
  An object key selects the field whose JSON name it equals; failing that, the first field
  in declaration order whose name equals it under the decoder's case folding. The folding
  function is the library's and is a parameter here.
\<close>

definition find_field :: "(string \<Rightarrow> string) \<Rightarrow> string list \<Rightarrow> string \<Rightarrow> string option" where
  "find_field foldName names key =
     (if key \<in> set names then Some key
      else find (\<lambda>n. foldName n = foldName key) names)"

text \<open>
  The folding used to run the decoder on concrete bodies. Strings are UTF-8 bytes. As the
  library's folding does, it maps the ASCII lower-case letters to upper case, the Kelvin
  sign U+212A (bytes E2 84 AA) to \<open>K\<close> and the long s U+017F (bytes C5 BF) to \<open>S\<close>, the
  two characters outside ASCII that fold to an ASCII letter. Every other byte is kept;
  the library folds other letters outside ASCII among themselves, which makes no
  difference to whether a key equals a name made of ASCII characters, as all field names
  here are.
\<close>

definition fold_char :: "char \<Rightarrow> char" where
  "fold_char c =
     (let n = (of_char c :: nat) in if 97 \<le> n \<and> n \<le> 122 then char_of (n - 32) else c)"

fun foldName_std :: "string \<Rightarrow> string" where
  "foldName_std [] = []"
| "foldName_std (c # cs) =
     (if c = CHR 0xE2 \<and> take 2 cs = [CHR 0x84, CHR 0xAA] then
        CHR ''K'' # foldName_std (drop 2 cs)
      else if c = CHR 0xC5 \<and> take 1 cs = [CHR 0xBF] then
        CHR ''S'' # foldName_std (drop 1 cs)
      else fold_char c # foldName_std cs)"

text \<open>
  Decoding the members of an object into a struct, member by member in the order of the
  text: a key that selects no field is skipped, a value that does not fit its field is an
  error. \<open>store name v t\<close> stores \<open>v\<close> into the field of \<open>t\<close> with JSON name \<open>name\<close>.
  The decoder itself goes on after a type error and reports the first one at the end; the
  callers in this program drop the struct whenever an error is reported, so the model
  stops at the first.
\<close>

fun object_into ::
  "(string \<Rightarrow> json \<Rightarrow> 'a \<Rightarrow> 'a option) \<Rightarrow> (string \<Rightarrow> string) \<Rightarrow> string list \<Rightarrow>
   (string \<times> json) list \<Rightarrow> 'a \<Rightarrow> 'a option" where
  "object_into store foldName names [] t = Some t"
| "object_into store foldName names ((k, v) # ms) t =
     (case find_field foldName names k of
        None \<Rightarrow> object_into store foldName names ms t
      | Some n \<Rightarrow>
          (case store n v t of
             None \<Rightarrow> None
           | Some t' \<Rightarrow> object_into store foldName names ms t'))"

text \<open>
  A value decoded into a struct: \<open>null\<close> leaves the struct as it is, an object is decoded
  member by member, any other value is a type error.
\<close>

fun struct_into ::
  "(string \<Rightarrow> json \<Rightarrow> 'a \<Rightarrow> 'a option) \<Rightarrow> (string \<Rightarrow> string) \<Rightarrow> string list \<Rightarrow>
   json \<Rightarrow> 'a \<Rightarrow> 'a option" where
  "struct_into store foldName names JNull t = Some t"
| "struct_into store foldName names (JObject ms) t = object_into store foldName names ms t"
| "struct_into store foldName names v t = None"

section \<open>APIToken and TokenSource\<close>

definition OAuthTokenEndpoint :: string where
  "OAuthTokenEndpoint = ''https://api.github.com/copilot_internal/v2/token''"

definition APIEndpoint :: string where
  "APIEndpoint = ''https://api.githubcopilot.com''"

record APIToken =
  ExpiresAt :: int64
  RefreshIn :: int64
  Token :: string

text \<open>The zero value of the struct, as \<open>var apiToken APIToken\<close> declares it.\<close>

definition APIToken_zero :: APIToken where
  "APIToken_zero = \<lparr>ExpiresAt = 0, RefreshIn = 0, Token = []\<rparr>"

text \<open>The JSON names of the fields, from the struct tags, in declaration order.\<close>

definition APIToken_names :: "string list" where
  "APIToken_names = [''expires_at'', ''refresh_in'', ''token'']"

definition APIToken_store :: "string \<Rightarrow> json \<Rightarrow> APIToken \<Rightarrow> APIToken option" where
  "APIToken_store name v t =
     (if name = ''expires_at'' then map_option (\<lambda>x. t\<lparr>ExpiresAt := x\<rparr>) (store_int64 v (ExpiresAt t))
      else if name = ''refresh_in'' then map_option (\<lambda>x. t\<lparr>RefreshIn := x\<rparr>) (store_int64 v (RefreshIn t))
      else map_option (\<lambda>x. t\<lparr>Token := x\<rparr>) (store_string v (Token t)))"

text \<open>\<open>json.Unmarshal(data, apiToken)\<close>; \<open>None\<close> is the error it returns.\<close>

definition Unmarshal_APIToken :: "(string \<Rightarrow> string) \<Rightarrow> body \<Rightarrow> APIToken \<Rightarrow> APIToken option" where
  "Unmarshal_APIToken foldName data t =
     (case data of
        Unparseable \<Rightarrow> None
      | Parsed v \<Rightarrow> struct_into APIToken_store foldName APIToken_names v t)"

text \<open>
  The values a field accepts, read off \<open>store_int64\<close> and \<open>store_string\<close>, and with them
  the bodies that \<open>Unmarshal_APIToken\<close> accepts: \<open>null\<close>, or an object in which every
  member that selects a field carries a value the field accepts. No field is required.
\<close>

fun fits_int64 :: "json \<Rightarrow> bool" where
  "fits_int64 JNull = True"
| "fits_int64 (JInt n) = (- (2 ^ 63) \<le> n \<and> n < 2 ^ 63)"
| "fits_int64 v = False"

fun fits_string :: "json \<Rightarrow> bool" where
  "fits_string JNull = True"
| "fits_string (JString s) = True"
| "fits_string v = False"

definition field_fits :: "string \<Rightarrow> json \<Rightarrow> bool" where
  "field_fits n v =
     (if n = ''expires_at'' then fits_int64 v
      else if n = ''refresh_in'' then fits_int64 v
      else fits_string v)"

fun member_fits :: "(string \<Rightarrow> string) \<Rightarrow> string \<times> json \<Rightarrow> bool" where
  "member_fits foldName (k, v) =
     (case find_field foldName APIToken_names k of
        None \<Rightarrow> True
      | Some n \<Rightarrow> field_fits n v)"

fun decodable :: "(string \<Rightarrow> string) \<Rightarrow> body \<Rightarrow> bool" where
  "decodable foldName Unparseable = False"
| "decodable foldName (Parsed JNull) = True"
| "decodable foldName (Parsed (JObject ms)) = list_all (member_fits foldName) ms"
| "decodable foldName (Parsed v) = False"

text \<open>
  The token source. The mutex serialises the accesses to \<open>apiToken\<close>; each locked section
  is one step of the model. The HTTP client is the environment.
\<close>

record TokenSource =
  apiToken :: APIToken
  oauthToken :: string

definition NewTokenSource :: "string \<Rightarrow> TokenSource" where
  "NewTokenSource oauth = \<lparr>apiToken = APIToken_zero, oauthToken = oauth\<rparr>"

text \<open>\<open>now\<close> is the value of \<open>time.Now().Unix()\<close> when the method runs.\<close>

definition ready :: "TokenSource \<Rightarrow> int64 \<Rightarrow> bool" where
  "ready ts now = (now <s ExpiresAt (apiToken ts))"

definition Ready :: "TokenSource \<Rightarrow> int64 \<Rightarrow> bool" where
  "Ready ts now = ready ts now"

definition TokenSource_Token :: "TokenSource \<Rightarrow> string" where
  "TokenSource_Token ts = Token (apiToken ts)"

definition CustomHeaders :: "TokenSource \<Rightarrow> Header \<Rightarrow> Header" where
  "CustomHeaders ts header =
     (let h1 = Header_Set header ''Authorization'' (''Bearer '' @ TokenSource_Token ts);
          h2 = Header_Set h1 ''User-Agent'' ''vscode-chat/dev'';
          h3 = Header_Set h2 ''Copilot-Integration-Id'' ''vscode-chat'';
          h4 = Header_Set h3 ''Editor-Version'' ''Neovim/0.11.0''
      in Header_Set h4 ''Editor-Plugin-Version'' ''copilot-chat/0.1.0'')"

section \<open>The exchange\<close>

text \<open>
  What \<open>ts.client.Do(req)\<close> and the read of the response body give back: the transport
  fails, or a response arrives whose body cannot be read, or a response arrives with its
  status code and bytes.
\<close>

datatype ClientResult =
    Do_failed
  | Read_failed int
  | Response int body

datatype refresh_error =
    failed_to_refresh_token
  | failed_to_read_response
  | failed_status int
  | failed_to_unmarshal_token

text \<open>
  The request \<open>refresh\<close> builds. \<open>http.NewRequestWithContext\<close> cannot fail on the constant
  method and URL, so its error branch has no counterpart.
\<close>

definition refresh_request :: "TokenSource \<Rightarrow> Request" where
  "refresh_request ts =
     (let h0 = Map.empty;
          h1 = Header_Set h0 ''Authorization'' (''Bearer '' @ oauthToken ts);
          h2 = Header_Set h1 ''User-Agent'' ''vscode-chat/dev'';
          h3 = Header_Set h2 ''Accept'' ''application/json''
      in \<lparr>Method = ''GET'', URL = OAuthTokenEndpoint, Header = h3\<rparr>)"

text \<open>
  \<open>refresh\<close> fills the caller's \<open>apiToken\<close> and returns an error or nil; \<open>rsp\<close> is what the
  client answers to the one request it sends. The token source itself is not written.
\<close>

definition refresh ::
  "(string \<Rightarrow> string) \<Rightarrow> TokenSource \<Rightarrow> ClientResult \<Rightarrow> APIToken \<Rightarrow> refresh_error + APIToken" where
  "refresh foldName ts rsp apiToken0 =
     (case rsp of
        Do_failed \<Rightarrow> Inl failed_to_refresh_token
      | Read_failed c \<Rightarrow> Inl failed_to_read_response
      | Response c data \<Rightarrow>
          if c \<noteq> StatusOK then Inl (failed_status c)
          else (case Unmarshal_APIToken foldName data apiToken0 of
                  None \<Rightarrow> Inl failed_to_unmarshal_token
                | Some t \<Rightarrow> Inr t))"

text \<open>
  The ways an exchange attempt fails: the transport fails, the body cannot be read, the
  status is not 200, or the body does not decode.
\<close>

fun exchange_fails :: "(string \<Rightarrow> string) \<Rightarrow> ClientResult \<Rightarrow> bool" where
  "exchange_fails foldName Do_failed = True"
| "exchange_fails foldName (Read_failed c) = True"
| "exchange_fails foldName (Response c data) =
     (c \<noteq> StatusOK \<or> Unmarshal_APIToken foldName data APIToken_zero = None)"

section \<open>The refresh loop\<close>

text \<open>
  The variables of \<open>Start\<close>: a timer channel is \<open>None\<close> when nil and otherwise carries the
  duration given to \<open>time.After\<close>; \<open>first\<close> holds while the closed channel is not nil.
  \<open>sent\<close> observes the requests issued to the token endpoint.
\<close>

record Loop =
  source :: TokenSource
  timeout :: "Duration option"
  retry :: "Duration option"
  first :: bool
  sent :: "Request list"

definition Start_init :: "TokenSource \<Rightarrow> Loop" where
  "Start_init t = \<lparr>source = t, timeout = None, retry = None, first = True, sent = []\<rparr>"

text \<open>The case of the \<open>select\<close> that fires; \<open>None\<close> is the \<open>return\<close> on \<open>ctx.Done()\<close>.\<close>

datatype Event = ctx_Done | timeout_fired | retry_fired | first_fired | ticker_C

fun select :: "Event \<Rightarrow> Loop \<Rightarrow> Loop option" where
  "select ctx_Done l = None"
| "select timeout_fired l = Some (l\<lparr>timeout := None\<rparr>)"
| "select retry_fired l = Some (l\<lparr>retry := None\<rparr>)"
| "select first_fired l = Some (l\<lparr>first := False\<rparr>)"
| "select ticker_C l = Some l"

text \<open>
  One iteration of the \<open>for\<close> loop: the case \<open>ev\<close> fires, \<open>now\<close> is the Unix time that
  \<open>Ready\<close> reads, \<open>rsp\<close> is what the client answers if the iteration gets to \<open>refresh\<close>.
\<close>

definition Start_iter ::
  "(string \<Rightarrow> string) \<Rightarrow> Event \<Rightarrow> int64 \<Rightarrow> ClientResult \<Rightarrow> Loop \<Rightarrow> Loop option" where
  "Start_iter foldName ev now rsp l =
     (case select ev l of
        None \<Rightarrow> None
      | Some l1 \<Rightarrow>
          if Ready (source l1) now then Some l1
          else
            (let l2 = l1\<lparr>sent := sent l1 @ [refresh_request (source l1)]\<rparr>
             in case refresh foldName (source l1) rsp APIToken_zero of
                  Inl err \<Rightarrow> Some (l2\<lparr>retry := Some (5 * Second)\<rparr>)
                | Inr tok \<Rightarrow>
                    Some (l2\<lparr>source := (source l2)\<lparr>apiToken := tok\<rparr>,
                             timeout := Some ((RefreshIn tok - 10) * Second)\<rparr>)))"

text \<open>
  The loop over a schedule of wake-ups, up to the \<open>return\<close> or the end of the schedule;
  the result is the state reached.
\<close>

fun Start ::
  "(string \<Rightarrow> string) \<Rightarrow> (Event \<times> int64 \<times> ClientResult) list \<Rightarrow> Loop \<Rightarrow> Loop" where
  "Start foldName [] l = l"
| "Start foldName ((ev, now, rsp) # rest) l =
     (case Start_iter foldName ev now rsp l of
        None \<Rightarrow> l
      | Some l' \<Rightarrow> Start foldName rest l')"

subsection \<open>The earlier revision of the refresh loop (main.go)\<close>

text \<open>
  In \<open>main.go\<close> the \<open>APIToken\<close> has a fourth field, a struct of two strings. \<open>refresh\<close>
  holds the lock from start to end, stores the token itself and returns the timer
  channel, here the duration given to \<open>time.After\<close>. \<open>start\<close> calls it at every wake-up:
  there is no check of \<open>Ready\<close> and no ticker.
\<close>

record APIToken_Endpoints =
  API :: string
  Proxy :: string

record APIToken_main = APIToken +
  Endpoints :: APIToken_Endpoints

definition APIToken_main_zero :: APIToken_main where
  "APIToken_main_zero =
     \<lparr>ExpiresAt = 0, RefreshIn = 0, Token = [], Endpoints = \<lparr>API = [], Proxy = []\<rparr>\<rparr>"

definition Endpoints_names :: "string list" where
  "Endpoints_names = [''api'', ''proxy'']"

definition Endpoints_store ::
  "string \<Rightarrow> json \<Rightarrow> APIToken_Endpoints \<Rightarrow> APIToken_Endpoints option" where
  "Endpoints_store name v e =
     (if name = ''api'' then map_option (\<lambda>x. e\<lparr>API := x\<rparr>) (store_string v (API e))
      else map_option (\<lambda>x. e\<lparr>Proxy := x\<rparr>) (store_string v (Proxy e)))"

definition APIToken_main_names :: "string list" where
  "APIToken_main_names = [''expires_at'', ''refresh_in'', ''token'', ''endpoints'']"

definition APIToken_main_store ::
  "(string \<Rightarrow> string) \<Rightarrow> string \<Rightarrow> json \<Rightarrow> APIToken_main \<Rightarrow> APIToken_main option" where
  "APIToken_main_store foldName name v t =
     (if name = ''expires_at'' then map_option (\<lambda>x. t\<lparr>ExpiresAt := x\<rparr>) (store_int64 v (ExpiresAt t))
      else if name = ''refresh_in'' then map_option (\<lambda>x. t\<lparr>RefreshIn := x\<rparr>) (store_int64 v (RefreshIn t))
      else if name = ''token'' then map_option (\<lambda>x. t\<lparr>Token := x\<rparr>) (store_string v (Token t))
      else map_option (\<lambda>x. t\<lparr>Endpoints := x\<rparr>)
             (struct_into Endpoints_store foldName Endpoints_names v (Endpoints t)))"

definition Unmarshal_APIToken_main ::
  "(string \<Rightarrow> string) \<Rightarrow> body \<Rightarrow> APIToken_main \<Rightarrow> APIToken_main option" where
  "Unmarshal_APIToken_main foldName data t =
     (case data of
        Unparseable \<Rightarrow> None
      | Parsed v \<Rightarrow>
          struct_into (APIToken_main_store foldName) foldName APIToken_main_names v t)"

record TokenSource_main =
  apiToken_main :: APIToken_main
  oauthToken_main :: string

text \<open>
  \<open>Ready\<close>, \<open>Token\<close> and \<open>ServeHTTP\<close> of \<open>main.go\<close> read \<open>ExpiresAt\<close> and \<open>Token\<close> only:
  what they see of this token source is the following view.
\<close>

definition TokenSource_of_main :: "TokenSource_main \<Rightarrow> TokenSource" where
  "TokenSource_of_main t =
     \<lparr>apiToken = APIToken.truncate (apiToken_main t), oauthToken = oauthToken_main t\<rparr>"

definition refresh_request_main :: "TokenSource_main \<Rightarrow> Request" where
  "refresh_request_main ts =
     (let h0 = Map.empty;
          h1 = Header_Set h0 ''Authorization'' (''Bearer '' @ oauthToken_main ts);
          h2 = Header_Set h1 ''User-Agent'' ''vscode-chat/dev'';
          h3 = Header_Set h2 ''Accept'' ''application/json''
      in \<lparr>Method = ''GET'', URL = ''https://api.github.com/copilot_internal/v2/token'',
          Header = h3\<rparr>)"

text \<open>
  \<open>refresh\<close> of \<open>main.go\<close>: an error, or the duration of the timer it started together
  with the token source after the store.
\<close>

definition refresh_main ::
  "(string \<Rightarrow> string) \<Rightarrow> TokenSource_main \<Rightarrow> ClientResult \<Rightarrow>
   refresh_error + Duration \<times> TokenSource_main" where
  "refresh_main foldName ts rsp =
     (case rsp of
        Do_failed \<Rightarrow> Inl failed_to_refresh_token
      | Read_failed c \<Rightarrow> Inl failed_to_read_response
      | Response c data \<Rightarrow>
          if c \<noteq> StatusOK then Inl (failed_status c)
          else (case Unmarshal_APIToken_main foldName data APIToken_main_zero of
                  None \<Rightarrow> Inl failed_to_unmarshal_token
                | Some token \<Rightarrow>
                    Inr ((RefreshIn token - 10) * Second, ts\<lparr>apiToken_main := token\<rparr>)))"

record Loop_main =
  source_main :: TokenSource_main
  timeout_main :: "Duration option"
  retry_main :: "Duration option"
  first_main :: bool
  sent_main :: "Request list"

definition start_init :: "TokenSource_main \<Rightarrow> Loop_main" where
  "start_init t =
     \<lparr>source_main = t, timeout_main = None, retry_main = None, first_main = True,
      sent_main = []\<rparr>"

datatype Event_main = ctx_Done_main | timeout_fired_main | retry_fired_main | first_fired_main

fun select_main :: "Event_main \<Rightarrow> Loop_main \<Rightarrow> Loop_main option" where
  "select_main ctx_Done_main l = None"
| "select_main timeout_fired_main l = Some (l\<lparr>timeout_main := None\<rparr>)"
| "select_main retry_fired_main l = Some (l\<lparr>retry_main := None\<rparr>)"
| "select_main first_fired_main l = Some (l\<lparr>first_main := False\<rparr>)"

text \<open>One iteration of the \<open>for\<close> loop of \<open>start\<close>, and the loop over a schedule.\<close>

definition start_iter ::
  "(string \<Rightarrow> string) \<Rightarrow> Event_main \<Rightarrow> ClientResult \<Rightarrow> Loop_main \<Rightarrow> Loop_main option" where
  "start_iter foldName ev rsp l =
     (case select_main ev l of
        None \<Rightarrow> None
      | Some l1 \<Rightarrow>
          (let l2 = l1\<lparr>sent_main := sent_main l1 @ [refresh_request_main (source_main l1)]\<rparr>
           in case refresh_main foldName (source_main l1) rsp of
                Inl err \<Rightarrow> Some (l2\<lparr>retry_main := Some (5 * Second)\<rparr>)
              | Inr (next, ts') \<Rightarrow>
                  Some (l2\<lparr>source_main := ts', timeout_main := Some next\<rparr>)))"

fun start ::
  "(string \<Rightarrow> string) \<Rightarrow> (Event_main \<times> ClientResult) list \<Rightarrow> Loop_main \<Rightarrow> Loop_main" where
  "start foldName [] l = l"
| "start foldName ((ev, rsp) # rest) l =
     (case start_iter foldName ev rsp l of
        None \<Rightarrow> l
      | Some l' \<Rightarrow> start foldName rest l')"

section \<open>The proxy handler\<close>

text \<open>
  What a handler did with one request: the state of the writer it was given, the outbound
  requests it handed to the reverse proxy for forwarding, and the access-log records it
  emitted (the duration is left out).
\<close>

record LogEntry =
  log_method :: string
  log_url :: string
  log_status :: int

record Outcome =
  writer :: ResponseWriter
  forwarded :: "Request list"
  accesslog :: "LogEntry list"

type_synonym Handler = "ResponseWriter \<Rightarrow> Request \<Rightarrow> Outcome"

text \<open>
  The parts of \<open>net/url\<close> and \<open>httputil.ReverseProxy\<close> the handlers call are parameters:
  \<open>url_Parse\<close> parses a URL, \<open>Out\<close> gives the outbound copy of an inbound request that
  \<open>ServeHTTP\<close> hands to the \<open>Rewrite\<close> hook, \<open>SetURL\<close> routes an outbound request to a
  target, and \<open>RoundTrip\<close> stands for sending the rewritten request and gives the calls
  that \<open>ServeHTTP\<close> then makes on its writer (the upstream's answer, or the proxy's own
  error response).
\<close>

record 'u proxylib =
  url_Parse :: "string \<Rightarrow> 'u option"
  Out :: "Request \<Rightarrow> Request"
  SetURL :: "'u \<Rightarrow> Request \<Rightarrow> Request"
  RoundTrip :: "Request \<Rightarrow> rw_call list"

text \<open>
  \<open>ReverseProxy.ServeHTTP\<close> with a \<open>Rewrite\<close> hook: the hook is the last to touch the
  outbound request before it is sent. The result is that request and the calls made on the
  writer.
\<close>

definition ReverseProxy_ServeHTTP ::
  "'u proxylib \<Rightarrow> (Request \<Rightarrow> Request) \<Rightarrow> Request \<Rightarrow> Request \<times> rw_call list" where
  "ReverseProxy_ServeHTTP lib rewrite r =
     (let out = rewrite (Out lib r) in (out, RoundTrip lib out))"

text \<open>The \<open>Rewrite\<close> hook that \<open>NewProxy\<close> installs.\<close>

definition Rewrite :: "'u proxylib \<Rightarrow> TokenSource \<Rightarrow> 'u \<Rightarrow> Request \<Rightarrow> Request" where
  "Rewrite lib ts upstream out =
     (let out1 = SetURL lib upstream out
      in out1\<lparr>Header := CustomHeaders ts (Header out1)\<rparr>)"

text \<open>
  The handler \<open>NewProxy\<close> returns, run on one request. \<open>Ready\<close> and \<open>Token\<close> take the
  lock separately and the refresh loop may write the token source in between, so the
  handler is given the token source at each of the two reads: \<open>ts\<close> when \<open>Ready\<close> runs,
  with \<open>now\<close> the Unix time it reads, and \<open>ts'\<close> when the \<open>Rewrite\<close> hook runs.
\<close>

definition NewProxy ::
  "'u proxylib \<Rightarrow> TokenSource \<Rightarrow> TokenSource \<Rightarrow> 'u \<Rightarrow> int64 \<Rightarrow> Handler" where
  "NewProxy lib ts ts' upstream now w r =
     (if \<not> Ready ts now then
        \<lparr>writer = http_Error w ''Service not ready'' StatusServiceUnavailable,
         forwarded = [], accesslog = []\<rparr>
      else
        (let tracker = TrackStatusCode w;
             (out, cs) = ReverseProxy_ServeHTTP lib (Rewrite lib ts' upstream) r;
             tracker' = tracker_calls cs tracker
         in \<lparr>writer = ResponseWriter tracker',
             forwarded = [out],
             accesslog = [\<lparr>log_method = Method r, log_url = URL r,
                           log_status = code tracker'\<rparr>]\<rparr>))"

subsection \<open>The earlier revision of the handler (main.go)\<close>

text \<open>
  In \<open>main.go\<close> the token source itself is the handler. Its \<open>Ready\<close> and \<open>Token\<close> are the
  ones above; the extra \<open>Endpoints\<close> field of its \<open>APIToken\<close> is read nowhere. As above,
  \<open>ts\<close> is the token source when \<open>Ready\<close> runs and \<open>ts'\<close> when \<open>Token\<close> runs.
\<close>

definition StatusInternalServerError :: int where
  "StatusInternalServerError = 500"

definition Endpoint :: "TokenSource \<Rightarrow> string" where
  "Endpoint ts = ''https://api.githubcopilot.com''"

fun ResponseWriter_call :: "rw_call \<Rightarrow> ResponseWriter \<Rightarrow> ResponseWriter" where
  "ResponseWriter_call (WriteHeader_call c) w = ResponseWriter_WriteHeader c w"
| "ResponseWriter_call (Write_call b) w = ResponseWriter_Write b w"

fun ResponseWriter_calls :: "rw_call list \<Rightarrow> ResponseWriter \<Rightarrow> ResponseWriter" where
  "ResponseWriter_calls [] w = w"
| "ResponseWriter_calls (x # xs) w = ResponseWriter_calls xs (ResponseWriter_call x w)"

definition ServeHTTP_Rewrite :: "'u proxylib \<Rightarrow> 'u \<Rightarrow> string \<Rightarrow> Request \<Rightarrow> Request" where
  "ServeHTTP_Rewrite lib upstream token out =
     (let out1 = SetURL lib upstream out;
          h1 = Header_Set (Header out1) ''Authorization'' (''Bearer '' @ token);
          h2 = Header_Set h1 ''User-Agent'' ''vscode-chat/dev'';
          h3 = Header_Set h2 ''Copilot-Integration-Id'' ''vscode-chat'';
          h4 = Header_Set h3 ''Editor-Version'' ''Neovim/0.11.0'';
          h5 = Header_Set h4 ''Editor-Plugin-Version'' ''copilot-chat/0.1.0''
      in out1\<lparr>Header := h5\<rparr>)"

definition ServeHTTP :: "'u proxylib \<Rightarrow> TokenSource \<Rightarrow> TokenSource \<Rightarrow> int64 \<Rightarrow> Handler" where
  "ServeHTTP lib ts ts' now w r =
     (if \<not> Ready ts now then
        \<lparr>writer = http_Error w ''Service not ready'' StatusServiceUnavailable,
         forwarded = [], accesslog = []\<rparr>
      else
        (case url_Parse lib (Endpoint ts) of
           None \<Rightarrow>
             \<lparr>writer = http_Error w ''Invalid upstream URL'' StatusInternalServerError,
              forwarded = [], accesslog = []\<rparr>
         | Some upstream \<Rightarrow>
             (let token = TokenSource_Token ts';
                  (out, cs) = ReverseProxy_ServeHTTP lib (ServeHTTP_Rewrite lib upstream token) r
              in \<lparr>writer = ResponseWriter_calls cs w, forwarded = [out], accesslog = []\<rparr>)))"

section \<open>The access gate\<close>

definition verifyAccessToken :: "string \<Rightarrow> Handler \<Rightarrow> Handler" where
  "verifyAccessToken token next =
     (if token = [] then next
      else (\<lambda>w r.
        (let authHeader = Header_Get (Header r) ''Authorization''
         in if authHeader \<noteq> ''Bearer '' @ token then
              \<lparr>writer = http_Error w ''Invalid access token'' StatusUnauthorized,
               forwarded = [], accesslog = []\<rparr>
            else next w r)))"

section \<open>The credential file\<close>

record TokenObject =
  User :: string
  OAuthToken :: string

definition TokenObject_zero :: TokenObject where
  "TokenObject_zero = \<lparr>User = [], OAuthToken = []\<rparr>"

definition TokenObject_names :: "string list" where
  "TokenObject_names = [''user'', ''oauth_token'']"

definition TokenObject_store :: "string \<Rightarrow> json \<Rightarrow> TokenObject \<Rightarrow> TokenObject option" where
  "TokenObject_store name v t =
     (if name = ''user'' then map_option (\<lambda>x. t\<lparr>User := x\<rparr>) (store_string v (User t))
      else map_option (\<lambda>x. t\<lparr>OAuthToken := x\<rparr>) (store_string v (OAuthToken t)))"

text \<open>
  Decoding into \<open>map[string]TokenObject\<close>: \<open>null\<close> sets the map to nil; of an object
  every member is decoded into a fresh zero element and stored under its key, a later
  duplicate replacing an earlier one. The map is kept as an association list with
  distinct keys; its order carries no meaning.
\<close>

fun members_into_map ::
  "(string \<Rightarrow> string) \<Rightarrow> (string \<times> json) list \<Rightarrow> (string \<times> TokenObject) list \<Rightarrow>
   (string \<times> TokenObject) list option" where
  "members_into_map foldName [] cfg = Some cfg"
| "members_into_map foldName ((k, v) # ms) cfg =
     (case struct_into TokenObject_store foldName TokenObject_names v TokenObject_zero of
        None \<Rightarrow> None
      | Some obj \<Rightarrow> members_into_map foldName ms (AList.update k obj cfg))"

fun Unmarshal_cfg ::
  "(string \<Rightarrow> string) \<Rightarrow> body \<Rightarrow> (string \<times> TokenObject) list \<Rightarrow>
   (string \<times> TokenObject) list option" where
  "Unmarshal_cfg foldName Unparseable cfg = None"
| "Unmarshal_cfg foldName (Parsed JNull) cfg = Some []"
| "Unmarshal_cfg foldName (Parsed (JObject ms)) cfg = members_into_map foldName ms cfg"
| "Unmarshal_cfg foldName (Parsed v) cfg = None"

datatype ReadFile_result = ReadFile_failed | ReadFile_data body

datatype parse_error =
    failed_to_read_apps_json
  | failed_to_unmarshal_apps_json
  | no_OAuth_token_found

text \<open>
  \<open>parseOAuthToken\<close> returns from inside the first iteration of a \<open>range\<close> over the map.
  The language leaves the iteration order of a map unspecified, so the entry that comes
  first may be any entry: the function is modelled by the set of results a run can return.
\<close>

definition parseOAuthToken ::
  "(string \<Rightarrow> string) \<Rightarrow> ReadFile_result \<Rightarrow> (parse_error + string) set" where
  "parseOAuthToken foldName file =
     (case file of
        ReadFile_failed \<Rightarrow> {Inl failed_to_read_apps_json}
      | ReadFile_data data \<Rightarrow>
          (case Unmarshal_cfg foldName data [] of
             None \<Rightarrow> {Inl failed_to_unmarshal_apps_json}
           | Some cfg \<Rightarrow>
               if cfg = [] then {Inl no_OAuth_token_found}
               else (\<lambda>(k, obj). Inr (OAuthToken obj)) ` set cfg))"

section \<open>Concrete inputs\<close>

text \<open>
  A library instance to run the handlers on concrete requests: the upstream is a string
  that \<open>SetURL\<close> puts in front of the request's path, and the upstream answers 200.
\<close>

definition test_SetURL :: "string \<Rightarrow> Request \<Rightarrow> Request" where
  "test_SetURL u r = r\<lparr>URL := u @ URL r\<rparr>"

definition test_RoundTrip :: "Request \<Rightarrow> rw_call list" where
  "test_RoundTrip r = [WriteHeader_call 200, Write_call ''ok'']"

definition test_lib :: "string proxylib" where
  "test_lib = \<lparr>url_Parse = Some, Out = id, SetURL = test_SetURL, RoundTrip = test_RoundTrip\<rparr>"

text \<open>A client request that brings its own \<open>Authorization\<close> and \<open>User-Agent\<close>.\<close>

definition client_request :: Request where
  "client_request =
     \<lparr>Method = ''GET'', URL = ''/foo'',
      Header = [''Authorization'' \<mapsto> [''Bearer mine''], ''User-Agent'' \<mapsto> [''curl/8'']]\<rparr>"

definition fresh_writer :: ResponseWriter where
  "fresh_writer = \<lparr>calls = []\<rparr>"

text \<open>
  A token source whose token expires at Unix time 1900 and asks to be refreshed after 1500
  seconds, and the loop as its first iteration leaves it when that token is the answer
  to the first exchange.
\<close>

definition ts_1900 :: TokenSource where
  "ts_1900 =
     \<lparr>apiToken = \<lparr>ExpiresAt = 1900, RefreshIn = 1500, Token = ''t1''\<rparr>, oauthToken = ''abc''\<rparr>"

definition loop_after_first :: Loop where
  "loop_after_first =
     \<lparr>source = ts_1900, timeout = Some 1490000000000, retry = None, first = False,
      sent = [refresh_request (NewTokenSource ''abc'')]\<rparr>"

text \<open>The same token in the token source of \<open>main.go\<close>.\<close>

definition ts_1900_main :: TokenSource_main where
  "ts_1900_main =
     \<lparr>apiToken_main =
        \<lparr>ExpiresAt = 1900, RefreshIn = 1500, Token = ''t1'',
         Endpoints = \<lparr>API = [], Proxy = []\<rparr>\<rparr>,
      oauthToken_main = ''abc''\<rparr>"

text \<open>Bodies of the token endpoint and of the credential file.\<close>

definition token_body :: "string \<Rightarrow> int \<Rightarrow> int \<Rightarrow> body" where
  "token_body t e r =
     Parsed (JObject [(''token'', JString t), (''expires_at'', JInt e), (''refresh_in'', JInt r)])"

definition mistyped_body :: body where
  "mistyped_body = Parsed (JObject [(''token'', JString ''t1''), (''Expires_At'', JString ''soon'')])"

definition token_only_body :: body where
  "token_only_body = Parsed (JObject [(''token'', JString ''x'')])"

definition two_apps :: body where
  "two_apps = Parsed (JObject
     [(''github.com:app1'', JObject [(''user'', JString ''u1''), (''oauth_token'', JString ''gho_A'')]),
      (''github.com:app2'', JObject [(''user'', JString ''u2''), (''oauth_token'', JString ''gho_B'')])])"

section \<open>The status recorder\<close>

lemma tracker_call_latched:
  "code s \<noteq> 0 \<Longrightarrow> code (tracker_call x s) = code s"
  by (cases x) (simp_all add: WriteHeader_def Write_def Let_def)

lemma tracker_call_latched_headers:
  "code s \<noteq> 0 \<Longrightarrow>
   filter is_WriteHeader (calls (ResponseWriter (tracker_call x s))) =
   filter is_WriteHeader (calls (ResponseWriter s))"
  by (cases x) (simp_all add: WriteHeader_def Write_def Let_def ResponseWriter_Write_def)

lemma tracker_calls_latched:
  "code s \<noteq> 0 \<Longrightarrow>
   code (tracker_calls xs s) = code s \<and>
   filter is_WriteHeader (calls (ResponseWriter (tracker_calls xs s))) =
   filter is_WriteHeader (calls (ResponseWriter s))"
proof (induction xs arbitrary: s)
  case Nil
  then show ?case by simp
next
  case (Cons x xs)
  have "code (tracker_call x s) \<noteq> 0"
    using Cons.prems by (simp add: tracker_call_latched)
  from Cons.IH [OF this] show ?case
    using Cons.prems by (simp add: tracker_call_latched tracker_call_latched_headers)
qed

text \<open>
  C8. Whatever calls a handler makes on the tracker, the tracker's \<open>code\<close> is the status of
  the first call: the code of a first \<open>WriteHeader\<close> (a status code is never 0, which
  \<open>WriteHeader\<close> of \<open>net/http\<close> rejects), or 200 when the first call is a \<open>Write\<close>. Every
  later \<open>WriteHeader\<close> is dropped: the wrapped writer receives the first \<open>WriteHeader\<close> and
  no other, and none at all after a first \<open>Write\<close>.
\<close>

theorem first_status_latched:
  "c \<noteq> 0 \<Longrightarrow>
   code (tracker_calls (WriteHeader_call c # later) (TrackStatusCode w)) = c \<and>
   filter is_WriteHeader
     (calls (ResponseWriter (tracker_calls (WriteHeader_call c # later) (TrackStatusCode w)))) =
   filter is_WriteHeader (calls w) @ [WriteHeader_call c] \<and>
   code (tracker_calls (Write_call b # later) (TrackStatusCode w)) = StatusOK \<and>
   filter is_WriteHeader
     (calls (ResponseWriter (tracker_calls (Write_call b # later) (TrackStatusCode w)))) =
   filter is_WriteHeader (calls w)"
proof -
  assume c: "c \<noteq> 0"
  let ?s1 = "WriteHeader c (TrackStatusCode w)"
  let ?s2 = "Write b (TrackStatusCode w)"
  have s1: "code ?s1 = c"
    "filter is_WriteHeader (calls (ResponseWriter ?s1)) =
     filter is_WriteHeader (calls w) @ [WriteHeader_call c]"
    by (simp_all add: WriteHeader_def TrackStatusCode_def ResponseWriter_WriteHeader_def)
  have s2: "code ?s2 = StatusOK"
    "filter is_WriteHeader (calls (ResponseWriter ?s2)) = filter is_WriteHeader (calls w)"
    by (simp_all add: Write_def TrackStatusCode_def ResponseWriter_Write_def Let_def)
  have n1: "code ?s1 \<noteq> 0" using c s1 by simp
  have n2: "code ?s2 \<noteq> 0" using s2 by (simp add: StatusOK_def)
  show ?thesis
    using tracker_calls_latched [OF n1, of later] tracker_calls_latched [OF n2, of later] s1 s2
    by simp
qed

text \<open>The handler of the specification: status 200, then an attempt to write 500.\<close>

theorem first_status_latched_witness:
  "(200::int) \<noteq> 0 \<and>
   code (tracker_calls [WriteHeader_call 200, WriteHeader_call 500]
     (TrackStatusCode fresh_writer)) = 200 \<and>
   calls (ResponseWriter (tracker_calls [WriteHeader_call 200, WriteHeader_call 500]
     (TrackStatusCode fresh_writer))) = [WriteHeader_call 200]"
  using first_status_latched [where c = 200 and later = "[WriteHeader_call 500]"
      and w = fresh_writer and b = "[]"]
  by (simp add: WriteHeader_def TrackStatusCode_def ResponseWriter_WriteHeader_def
      fresh_writer_def)

section \<open>The proxy handler and the access gate\<close>

text \<open>
  C1. When the stored token is not valid at the time the handler runs, the handler of
  \<open>NewProxy\<close> (and \<open>ServeHTTP\<close> of the earlier revision) writes status 503 with the
  message and hands nothing to the reverse proxy: no outbound request is built or sent.
\<close>

theorem proxy_not_ready_503:
  "\<not> Ready ts now \<Longrightarrow>
   NewProxy lib ts ts' upstream now w r =
     \<lparr>writer = http_Error w ''Service not ready'' StatusServiceUnavailable,
      forwarded = [], accesslog = []\<rparr> \<and>
   ServeHTTP lib ts ts' now w r =
     \<lparr>writer = http_Error w ''Service not ready'' StatusServiceUnavailable,
      forwarded = [], accesslog = []\<rparr> \<and>
   calls (http_Error w ''Service not ready'' StatusServiceUnavailable) =
     calls w @ [WriteHeader_call 503, Write_call (''Service not ready'' @ [CHR 0x0A])]"
  by (simp add: NewProxy_def ServeHTTP_def http_Error_def ResponseWriter_Write_def
      ResponseWriter_WriteHeader_def StatusServiceUnavailable_def)

text \<open>A token that expires at 1900 is not valid at 1900; the handler answers 503.\<close>

theorem proxy_not_ready_503_witness:
  "\<not> Ready ts_1900 1900 \<and>
   forwarded (NewProxy test_lib ts_1900 ts_1900 APIEndpoint 1900 fresh_writer client_request) = [] \<and>
   calls (writer (NewProxy test_lib ts_1900 ts_1900 APIEndpoint 1900 fresh_writer client_request)) =
     [WriteHeader_call 503, Write_call (''Service not ready'' @ [CHR 0x0A])] \<and>
   forwarded (ServeHTTP test_lib ts_1900 ts_1900 1900 fresh_writer client_request) = []"
  using proxy_not_ready_503 [where ts = ts_1900 and ts' = ts_1900 and now = 1900 and lib = test_lib
      and upstream = APIEndpoint and w = fresh_writer and r = client_request]
  by (simp add: Ready_def ready_def ts_1900_def word_sless_alt fresh_writer_def)

lemma CustomHeaders_values:
  "CustomHeaders ts h ''Authorization'' = Some [''Bearer '' @ Token (apiToken ts)]"
  "CustomHeaders ts h ''User-Agent'' = Some [''vscode-chat/dev'']"
  "CustomHeaders ts h ''Copilot-Integration-Id'' = Some [''vscode-chat'']"
  "CustomHeaders ts h ''Editor-Version'' = Some [''Neovim/0.11.0'']"
  "CustomHeaders ts h ''Editor-Plugin-Version'' = Some [''copilot-chat/0.1.0'']"
  by (simp_all add: CustomHeaders_def Header_Set_def TokenSource_Token_def Let_def)

text \<open>
  C2. When the stored token is valid, the handler hands exactly one outbound request to
  the reverse proxy, and in it \<open>Authorization\<close> has the single value \<open>Bearer\<close> followed by
  the token stored when the outbound request is written, and \<open>User-Agent\<close>, \<open>Copilot-Integration-Id\<close>, \<open>Editor-Version\<close> and
  \<open>Editor-Plugin-Version\<close> have their fixed single values, whatever the inbound request
  carried.
\<close>

theorem proxy_outbound_headers:
  "Ready ts now \<Longrightarrow>
   (\<exists>out. forwarded (NewProxy lib ts ts' upstream now w r) = [out] \<and>
      Header out ''Authorization'' = Some [''Bearer '' @ Token (apiToken ts')] \<and>
      Header_Get (Header out) ''Authorization'' = ''Bearer '' @ Token (apiToken ts') \<and>
      Header out ''User-Agent'' = Some [''vscode-chat/dev''] \<and>
      Header out ''Copilot-Integration-Id'' = Some [''vscode-chat''] \<and>
      Header out ''Editor-Version'' = Some [''Neovim/0.11.0''] \<and>
      Header out ''Editor-Plugin-Version'' = Some [''copilot-chat/0.1.0''])"
  by (simp add: NewProxy_def ReverseProxy_ServeHTTP_def Rewrite_def Let_def
      CustomHeaders_values Header_Get_def)

text \<open>The client's own \<open>Authorization\<close> and \<open>User-Agent\<close> are replaced.\<close>

theorem proxy_outbound_headers_witness:
  "Ready ts_1900 100 \<and>
   Header_Get (Header client_request) ''Authorization'' = ''Bearer mine'' \<and>
   Header_Get (Header (hd (forwarded
     (NewProxy test_lib ts_1900 ts_1900 APIEndpoint 100 fresh_writer client_request)))) ''Authorization'' =
     ''Bearer t1'' \<and>
   Header (hd (forwarded
     (NewProxy test_lib ts_1900 ts_1900 APIEndpoint 100 fresh_writer client_request))) ''User-Agent'' =
     Some [''vscode-chat/dev'']"
  using proxy_outbound_headers [where ts = ts_1900 and ts' = ts_1900 and now = 100 and lib = test_lib
      and upstream = APIEndpoint and w = fresh_writer and r = client_request]
  by (auto simp: Ready_def ready_def ts_1900_def word_sless_alt client_request_def Header_Get_def)

text \<open>
  C3. With a non-empty configured token, a request whose \<open>Authorization\<close> header is not
  \<open>Bearer\<close> followed by that token gets status 401 with the message, and the outcome does
  not depend on the next handler, which is not run: nothing is forwarded. With the empty
  token the middleware returns the next handler itself.
\<close>

theorem verifyAccessToken_gate:
  "token \<noteq> [] \<Longrightarrow> Header_Get (Header r) ''Authorization'' \<noteq> ''Bearer '' @ token \<Longrightarrow>
   verifyAccessToken token h w r =
     \<lparr>writer = http_Error w ''Invalid access token'' StatusUnauthorized,
      forwarded = [], accesslog = []\<rparr> \<and>
   calls (writer (verifyAccessToken token h w r)) =
     calls w @ [WriteHeader_call 401, Write_call (''Invalid access token'' @ [CHR 0x0A])] \<and>
   verifyAccessToken token h w r = verifyAccessToken token h' w r \<and>
   verifyAccessToken [] h = h"
  by (simp add: verifyAccessToken_def Let_def http_Error_def ResponseWriter_Write_def
      ResponseWriter_WriteHeader_def StatusUnauthorized_def)

text \<open>
  A request with another bearer token is stopped in front of a proxy handler that is ready
  and would have forwarded it.
\<close>

theorem verifyAccessToken_gate_witness:
  "''secret'' \<noteq> [] \<and>
   Header_Get (Header client_request) ''Authorization'' \<noteq> ''Bearer '' @ ''secret'' \<and>
   forwarded (verifyAccessToken ''secret'' (NewProxy test_lib ts_1900 ts_1900 APIEndpoint 100)
     fresh_writer client_request) = [] \<and>
   calls (writer (verifyAccessToken ''secret'' (NewProxy test_lib ts_1900 ts_1900 APIEndpoint 100)
     fresh_writer client_request)) =
     [WriteHeader_call 401, Write_call (''Invalid access token'' @ [CHR 0x0A])] \<and>
   verifyAccessToken [] (NewProxy test_lib ts_1900 ts_1900 APIEndpoint 100) =
     NewProxy test_lib ts_1900 ts_1900 APIEndpoint 100"
  using verifyAccessToken_gate [where token = "''secret''" and r = client_request
      and w = fresh_writer and h = "NewProxy test_lib ts_1900 ts_1900 APIEndpoint 100"
      and h' = "ServeHTTP test_lib ts_1900 ts_1900 100"]
  by (simp add: client_request_def Header_Get_def fresh_writer_def http_Error_def
      ResponseWriter_Write_def ResponseWriter_WriteHeader_def StatusUnauthorized_def)

section \<open>The refresh loop\<close>

lemma select_keeps:
  "select ev l = Some l1 \<Longrightarrow> source l1 = source l \<and> sent l1 = sent l"
  by (cases ev) auto

lemma select_Some: "ev \<noteq> ctx_Done \<Longrightarrow> \<exists>l1. select ev l = Some l1"
  by (cases ev) auto

lemma refresh_fails_iff:
  "isl (refresh f t rsp APIToken_zero) = exchange_fails f rsp"
  by (cases rsp) (auto simp: refresh_def split: option.splits)

lemma Start_iter_ready:
  "Ready (source l) now \<Longrightarrow> Start_iter f ev now rsp l = select ev l"
  by (cases ev) (simp_all add: Start_iter_def)

lemma Start_iter_failure:
  assumes "ev \<noteq> ctx_Done" "\<not> Ready (source l) now" "exchange_fails f rsp"
  shows "\<exists>l'. Start_iter f ev now rsp l = Some l' \<and> source l' = source l \<and>
           retry l' = Some (5 * Second) \<and> sent l' = sent l @ [refresh_request (source l)]"
proof -
  obtain l1 where l1: "select ev l = Some l1"
    using select_Some [OF assms(1)] by blast
  have k: "source l1 = source l" "sent l1 = sent l"
    using select_keeps [OF l1] by simp_all
  obtain e where e: "refresh f (source l) rsp APIToken_zero = Inl e"
    using assms(3) refresh_fails_iff [of f "source l" rsp]
    by (cases "refresh f (source l) rsp APIToken_zero") auto
  show ?thesis
    using assms(2) l1 k e by (simp add: Start_iter_def Let_def)
qed

lemma Start_iter_success:
  assumes "ev \<noteq> ctx_Done" "\<not> Ready (source l) now"
    "refresh f (source l) rsp APIToken_zero = Inr tok"
  shows "\<exists>l'. Start_iter f ev now rsp l = Some l' \<and>
           source l' = (source l)\<lparr>apiToken := tok\<rparr> \<and>
           timeout l' = Some ((RefreshIn tok - 10) * Second) \<and>
           sent l' = sent l @ [refresh_request (source l)]"
proof -
  obtain l1 where l1: "select ev l = Some l1"
    using select_Some [OF assms(1)] by blast
  have k: "source l1 = source l" "sent l1 = sent l"
    using select_keeps [OF l1] by simp_all
  show ?thesis
    using assms(2,3) l1 k by (simp add: Start_iter_def Let_def)
qed

text \<open>
  C9. At a wake-up that finds the stored token valid, the iteration does what the fired
  case of the \<open>select\<close> does and nothing else: it returns on \<open>ctx.Done()\<close>, and otherwise
  it sends no request to the token endpoint and leaves the token source as it is. This
  holds for every case, the refresh timer included. Over a whole schedule of wake-ups
  that all find the token valid, no request is sent. Hence a request is sent only at a
  wake-up that finds the token invalid.
\<close>

theorem no_exchange_while_ready:
  "Ready (source l) now \<Longrightarrow> \<forall>(e, n, r) \<in> set sched. Ready (source l) n \<Longrightarrow>
   Start_iter f ev now rsp l = select ev l \<and>
   (case Start_iter f ev now rsp l of
      None \<Rightarrow> ev = ctx_Done
    | Some l' \<Rightarrow> sent l' = sent l \<and> source l' = source l) \<and>
   sent (Start f sched l) = sent l \<and> source (Start f sched l) = source l"
proof -
  assume r: "Ready (source l) now" and all: "\<forall>(e, n, r) \<in> set sched. Ready (source l) n"
  have a: "sent l' = sent l \<and> source l' = source l"
    if "Ready (source l) now" "Start_iter f ev now rsp l = Some l'" for l l' ev now rsp
    using that select_keeps [of ev l l'] by (simp add: Start_iter_ready)
  have b: "sent (Start f sched l) = sent l \<and> source (Start f sched l) = source l"
    using all
  proof (induction sched arbitrary: l)
    case Nil
    then show ?case by simp
  next
    case (Cons x sched)
    obtain e n r where x: "x = (e, n, r)" by (cases x) auto
    have rdy: "Ready (source l) n" using Cons.prems x by simp
    show ?case
    proof (cases "Start_iter f e n r l")
      case None
      then show ?thesis using x by simp
    next
      case (Some l')
      have k: "sent l' = sent l \<and> source l' = source l" using a [OF rdy Some] .
      have "\<forall>(e, n, r) \<in> set sched. Ready (source l') n" using Cons.prems k by simp
      from Cons.IH [OF this] show ?thesis using Some x k by simp
    qed
  qed
  have c: "case Start_iter f ev now rsp l of
      None \<Rightarrow> ev = ctx_Done
    | Some l' \<Rightarrow> sent l' = sent l \<and> source l' = source l"
  proof (cases "Start_iter f ev now rsp l")
    case None
    then show ?thesis using r select_Some [of ev l] by (auto simp: Start_iter_ready)
  next
    case (Some l')
    then show ?thesis using a [OF r Some] by simp
  qed
  show ?thesis using Start_iter_ready [OF r] b c by simp
qed

text \<open>
  The token obtained at 100 is valid until 1900 and its refresh timer fires at 1590: that
  wake-up sends nothing, nor do the ticks at 1600 and 1899.
\<close>

theorem no_exchange_while_ready_witness:
  "Ready (source loop_after_first) 1590 \<and>
   Ready (source loop_after_first) 1600 \<and>
   Ready (source loop_after_first) 1899 \<and>
   Start_iter foldName_std timeout_fired 1590 (Response 200 (token_body ''t2'' 3700 1500))
     loop_after_first = Some (loop_after_first\<lparr>timeout := None\<rparr>) \<and>
   sent (Start foldName_std
     [(ticker_C, 1600, Response 200 (token_body ''t2'' 3700 1500)),
      (ticker_C, 1899, Response 200 (token_body ''t2'' 3700 1500))]
     loop_after_first) = sent loop_after_first \<and>
   source (Start foldName_std
     [(ticker_C, 1600, Response 200 (token_body ''t2'' 3700 1500)),
      (ticker_C, 1899, Response 200 (token_body ''t2'' 3700 1500))]
     loop_after_first) = ts_1900"
  using no_exchange_while_ready [where l = loop_after_first and now = 1590
      and sched = "[(ticker_C, 1600, Response 200 (token_body ''t2'' 3700 1500)),
                    (ticker_C, 1899, Response 200 (token_body ''t2'' 3700 1500))]"
      and f = foldName_std and ev = timeout_fired
      and rsp = "Response 200 (token_body ''t2'' 3700 1500)"]
  by (simp add: loop_after_first_def ts_1900_def Ready_def ready_def word_sless_alt)

lemma Start_all_fail:
  "\<forall>(ev, now, rsp) \<in> set sched.
      ev \<noteq> ctx_Done \<and> \<not> Ready (source l) now \<and> exchange_fails f rsp \<Longrightarrow>
   source (Start f sched l) = source l \<and>
   length (sent (Start f sched l)) = length (sent l) + length sched \<and>
   (sched \<noteq> [] \<longrightarrow> retry (Start f sched l) = Some (5 * Second))"
proof (induction sched arbitrary: l)
  case Nil
  then show ?case by simp
next
  case (Cons x sched)
  obtain ev now rsp where x: "x = (ev, now, rsp)" by (cases x) auto
  have h: "ev \<noteq> ctx_Done" "\<not> Ready (source l) now" "exchange_fails f rsp"
    using Cons.prems x by simp_all
  obtain l' where l': "Start_iter f ev now rsp l = Some l'" "source l' = source l"
      "retry l' = Some (5 * Second)" "sent l' = sent l @ [refresh_request (source l)]"
    using Start_iter_failure [OF h] by blast
  have "\<forall>(ev, now, rsp) \<in> set sched.
      ev \<noteq> ctx_Done \<and> \<not> Ready (source l') now \<and> exchange_fails f rsp"
    using Cons.prems l'(2) by simp
  from Cons.IH [OF this] show ?case using l' x by (cases sched) simp_all
qed

lemma not_Ready_later:
  "\<not> Ready t now \<Longrightarrow> now \<le>s later \<Longrightarrow> \<not> Ready t later"
  by (simp add: Ready_def ready_def word_sless_alt word_sle_eq)

lemma NewProxy_not_Ready:
  "\<not> Ready t now \<Longrightarrow>
   NewProxy lib t t' upstream now w r =
     \<lparr>writer = http_Error w ''Service not ready'' StatusServiceUnavailable,
      forwarded = [], accesslog = []\<rparr>"
  by (simp add: NewProxy_def)

text \<open>
  The token of \<open>ts_1900\<close> has expired at 1900 and the exchange attempted at the tick fails:
  the token stays in the token source and the retry timer is armed, but the kept token
  is not served, a proxied request at that time gets 503 and nothing is forwarded.
\<close>

theorem kept_token_not_served:
  "map_option source (Start_iter foldName_std ticker_C 1900 Do_failed loop_after_first) =
     Some ts_1900 \<and>
   Option.bind (Start_iter foldName_std ticker_C 1900 Do_failed loop_after_first) retry =
     Some 5000000000 \<and>
   map_option length
     (map_option sent (Start_iter foldName_std ticker_C 1900 Do_failed loop_after_first)) =
     Some 2 \<and>
   forwarded (NewProxy test_lib ts_1900 ts_1900 APIEndpoint 1900 fresh_writer client_request) =
     [] \<and>
   calls (writer
     (NewProxy test_lib ts_1900 ts_1900 APIEndpoint 1900 fresh_writer client_request)) =
     [WriteHeader_call 503, Write_call (''Service not ready'' @ [CHR 0x0A])]"
  by (simp add: Start_iter_def loop_after_first_def ts_1900_def Ready_def ready_def
      word_sless_alt refresh_def Let_def Second_def NewProxy_def http_Error_def
      ResponseWriter_Write_def ResponseWriter_WriteHeader_def StatusServiceUnavailable_def
      fresh_writer_def)

text \<open>
  C4, amended. Over any number of consecutive wake-ups at which an exchange is attempted
  and fails (transport failure, unreadable body, status other than 200, or a body that
  does not decode), the token source stays exactly as it was, one request is sent per
  wake-up, and after each of them the retry timer is armed with 5 seconds. The kept token
  is not served: an exchange is attempted only when the stored token is not valid, so
  from each of these wake-ups on, as long as the clock does not go back, the proxy
  handler answers 503 and forwards nothing.
\<close>

theorem failed_exchange_keeps_token:
  "\<forall>(ev, now, rsp) \<in> set sched.
      ev \<noteq> ctx_Done \<and> \<not> Ready (source l) now \<and> exchange_fails f rsp \<Longrightarrow>
   source (Start f sched l) = source l \<and>
   length (sent (Start f sched l)) = length (sent l) + length sched \<and>
   (sched \<noteq> [] \<longrightarrow> retry (Start f sched l) = Some (5 * Second)) \<and>
   (\<forall>(ev, now, rsp) \<in> set sched. \<forall>later. now \<le>s later \<longrightarrow>
      NewProxy lib (source (Start f sched l)) ts' upstream later w r =
        \<lparr>writer = http_Error w ''Service not ready'' StatusServiceUnavailable,
         forwarded = [], accesslog = []\<rparr>)"
proof -
  assume h: "\<forall>(ev, now, rsp) \<in> set sched.
      ev \<noteq> ctx_Done \<and> \<not> Ready (source l) now \<and> exchange_fails f rsp"
  have k: "source (Start f sched l) = source l \<and>
      length (sent (Start f sched l)) = length (sent l) + length sched \<and>
      (sched \<noteq> [] \<longrightarrow> retry (Start f sched l) = Some (5 * Second))"
    using Start_all_fail [OF h] .
  have p: "NewProxy lib (source (Start f sched l)) ts' upstream later w r =
        \<lparr>writer = http_Error w ''Service not ready'' StatusServiceUnavailable,
         forwarded = [], accesslog = []\<rparr>"
    if "(ev, now, rsp) \<in> set sched" "now \<le>s later" for ev now rsp later
  proof -
    have "\<not> Ready (source l) now" using h that(1) by auto
    then have "\<not> Ready (source (Start f sched l)) later"
      using k that(2) by (simp add: not_Ready_later)
    then show ?thesis by (rule NewProxy_not_Ready)
  qed
  show ?thesis using k p by auto
qed

text \<open>
  Three failures in a row once the token has expired at 1900: no transport, status 500,
  and a 200 whose body is not JSON. The expired token stays in the token source, and a
  request at 1912 gets 503.
\<close>

theorem failed_exchange_keeps_token_witness:
  "ticker_C \<noteq> ctx_Done \<and> retry_fired \<noteq> ctx_Done \<and>
   \<not> Ready (source loop_after_first) 1900 \<and>
   \<not> Ready (source loop_after_first) 1905 \<and>
   \<not> Ready (source loop_after_first) 1910 \<and>
   exchange_fails foldName_std Do_failed \<and>
   exchange_fails foldName_std (Response 500 Unparseable) \<and>
   exchange_fails foldName_std (Response 200 Unparseable) \<and>
   (1900 :: int64) \<le>s 1912 \<and> (1905 :: int64) \<le>s 1912 \<and> (1910 :: int64) \<le>s 1912 \<and>
   source (Start foldName_std
     [(ticker_C, 1900, Do_failed), (retry_fired, 1905, Response 500 Unparseable),
      (retry_fired, 1910, Response 200 Unparseable)] loop_after_first) = ts_1900 \<and>
   length (sent (Start foldName_std
     [(ticker_C, 1900, Do_failed), (retry_fired, 1905, Response 500 Unparseable),
      (retry_fired, 1910, Response 200 Unparseable)] loop_after_first)) = 4 \<and>
   retry (Start foldName_std
     [(ticker_C, 1900, Do_failed), (retry_fired, 1905, Response 500 Unparseable),
      (retry_fired, 1910, Response 200 Unparseable)] loop_after_first) = Some 5000000000 \<and>
   forwarded (NewProxy test_lib
     (source (Start foldName_std
       [(ticker_C, 1900, Do_failed), (retry_fired, 1905, Response 500 Unparseable),
        (retry_fired, 1910, Response 200 Unparseable)] loop_after_first))
     ts_1900 APIEndpoint 1912 fresh_writer client_request) = []"
proof -
  have h: "\<forall>(ev, now, rsp) \<in> set
      [(ticker_C, 1900, Do_failed), (retry_fired, 1905, Response 500 Unparseable),
       (retry_fired, 1910, Response 200 Unparseable)].
      ev \<noteq> ctx_Done \<and> \<not> Ready (source loop_after_first) now \<and>
      exchange_fails foldName_std rsp"
    by (simp add: loop_after_first_def ts_1900_def Ready_def ready_def word_sless_alt
        StatusOK_def Unmarshal_APIToken_def)
  have t: "(1900 :: int64) \<le>s 1912" "(1905 :: int64) \<le>s 1912" "(1910 :: int64) \<le>s 1912"
    by (simp_all add: word_sle_eq)
  note th = failed_exchange_keeps_token [OF h, where lib = test_lib and ts' = ts_1900
      and upstream = APIEndpoint and w = fresh_writer and r = client_request]
  have a: "source (Start foldName_std
     [(ticker_C, 1900, Do_failed), (retry_fired, 1905, Response 500 Unparseable),
      (retry_fired, 1910, Response 200 Unparseable)] loop_after_first) = ts_1900"
    using th by (simp del: Start.simps add: loop_after_first_def)
  have b: "length (sent (Start foldName_std
     [(ticker_C, 1900, Do_failed), (retry_fired, 1905, Response 500 Unparseable),
      (retry_fired, 1910, Response 200 Unparseable)] loop_after_first)) = 4"
    using th by (simp del: Start.simps add: loop_after_first_def)
  have c: "retry (Start foldName_std
     [(ticker_C, 1900, Do_failed), (retry_fired, 1905, Response 500 Unparseable),
      (retry_fired, 1910, Response 200 Unparseable)] loop_after_first) = Some 5000000000"
    using th by (simp del: Start.simps add: Second_def)
  have d: "forwarded (NewProxy test_lib
     (source (Start foldName_std
       [(ticker_C, 1900, Do_failed), (retry_fired, 1905, Response 500 Unparseable),
        (retry_fired, 1910, Response 200 Unparseable)] loop_after_first))
     ts_1900 APIEndpoint 1912 fresh_writer client_request) = []"
    using th t(3) by (auto simp del: Start.simps)
  show ?thesis
    using h t a b c d by (simp del: Start.simps)
qed

section \<open>Successful exchanges\<close>

lemma sint_delay:
  fixes r :: int64
  assumes "- 9223372026 \<le> sint r" "sint r \<le> 9223372046"
  shows "sint ((r - 10) * Second) = (sint r - 10) * 1000000000"
proof -
  have a: "sint (r - 10) = sint r - 10"
    using assms by (simp add: sint_word_diff signed_take_bit_int_eq_self)
  have s: "sint Second = 1000000000" by (simp add: Second_def)
  have "sint ((r - 10) * Second) =
      signed_take_bit (LENGTH(64) - 1) (sint (r - 10) * sint Second)"
    by (rule sint_word_mult)
  also have "\<dots> = signed_take_bit 63 ((sint r - 10) * 1000000000)"
    by (simp only: a s) simp
  also have "\<dots> = (sint r - 10) * 1000000000"
    using assms by (intro signed_take_bit_int_eq_self) simp_all
  finally show ?thesis .
qed

lemma refresh_token_body:
  assumes "- (2 ^ 63) \<le> e" "e < 2 ^ 63" "- (2 ^ 63) \<le> r" "r < 2 ^ 63"
  shows "refresh f t (Response StatusOK (token_body tk e r)) APIToken_zero =
     Inr \<lparr>ExpiresAt = word_of_int e, RefreshIn = word_of_int r, Token = tk\<rparr>"
  using assms
  by (simp add: refresh_def Unmarshal_APIToken_def token_body_def find_field_def
      APIToken_names_def APIToken_store_def APIToken_zero_def)

text \<open>
  With \<open>refresh_in\<close> 5 the first exchange succeeds and the refresh timer is armed with
  minus five seconds, which is not a positive delay.
\<close>

theorem refresh_delay_not_positive:
  "Option.bind
     (Start_iter foldName_std first_fired 100 (Response 200 (token_body ''t1'' 700 5))
        (Start_init (NewTokenSource ''abc'')))
     timeout = Some (- 5000000000) \<and>
   \<not> (0 <s (- 5000000000 :: Duration))"
  by (simp add: Start_iter_def Start_init_def NewTokenSource_def APIToken_zero_def Ready_def
      ready_def refresh_def StatusOK_def Unmarshal_APIToken_def token_body_def find_field_def
      APIToken_names_def APIToken_store_def Let_def Second_def word_sless_alt)

lemma sint_delay_wrap:
  fixes r :: int64
  shows "sint ((r - 10) * Second) = signed_take_bit 63 ((sint r - 10) * 1000000000)"
proof -
  have "(r - 10) * Second = (word_of_int ((sint r - 10) * 1000000000) :: int64)"
    by (simp add: Second_def)
  then have "sint ((r - 10) * Second) =
      sint (word_of_int ((sint r - 10) * 1000000000) :: int64)"
    by simp
  also have "\<dots> = signed_take_bit 63 ((sint r - 10) * 1000000000)"
    by (simp only: sint_sbintrunc') simp
  finally show ?thesis .
qed

lemma select_main_Some: "ev \<noteq> ctx_Done_main \<Longrightarrow> \<exists>l1. select_main ev l = Some l1"
  by (cases ev) auto

lemma select_main_keeps:
  "select_main ev l = Some l1 \<Longrightarrow> source_main l1 = source_main l \<and> sent_main l1 = sent_main l"
  by (cases ev) auto

lemma refresh_main_success:
  "refresh_main f t rsp = Inr (d, t2) \<Longrightarrow>
   d = (RefreshIn (apiToken_main t2) - 10) * Second \<and> oauthToken_main t2 = oauthToken_main t"
  by (cases rsp) (auto simp: refresh_main_def split: if_splits option.splits)

lemma start_iter_success:
  assumes "ev \<noteq> ctx_Done_main" "refresh_main f (source_main m) rsp = Inr (d, t2)"
  shows "\<exists>m'. start_iter f ev rsp m = Some m' \<and> source_main m' = t2 \<and>
           timeout_main m' = Some d"
proof -
  obtain m1 where m1: "select_main ev m = Some m1"
    using select_main_Some [OF assms(1)] by blast
  have k: "source_main m1 = source_main m"
    using select_main_keeps [OF m1] by simp
  show ?thesis
    using assms(2) m1 k by (simp add: start_iter_def Let_def)
qed

lemma refresh_main_token_body:
  assumes "- (2 ^ 63) \<le> e" "e < 2 ^ 63" "- (2 ^ 63) \<le> r" "r < 2 ^ 63"
  shows "refresh_main f t (Response StatusOK (token_body tk e r)) =
     Inr ((word_of_int r - 10) * Second,
          t\<lparr>apiToken_main :=
              \<lparr>ExpiresAt = word_of_int e, RefreshIn = word_of_int r, Token = tk,
               Endpoints = \<lparr>API = [], Proxy = []\<rparr>\<rparr>\<rparr>)"
  using assms
  by (simp add: refresh_main_def Unmarshal_APIToken_main_def token_body_def find_field_def
      APIToken_main_names_def APIToken_main_store_def APIToken_main_zero_def)

text \<open>
  C5, amended. After every successful exchange the loop writes the new token into the
  token source and arms the refresh timer with \<open>(RefreshIn - 10) * time.Second\<close>, computed
  in wrapping 64-bit arithmetic and with no lower bound: read as a signed number of
  nanoseconds, the delay is \<open>(RefreshIn - 10) * 1000000000\<close> reduced to the signed 64-bit
  range. While \<open>RefreshIn\<close> is between -9223372026 and 9223372046 nothing wraps and the
  delay is exactly \<open>RefreshIn - 10\<close> seconds: positive when \<open>RefreshIn\<close> is more than 10,
  zero or negative when it is 10 or less. This holds for \<open>Start\<close> and for \<open>start\<close> and
  \<open>refresh\<close> of \<open>main.go\<close> alike.
\<close>

theorem successful_exchange_delay:
  "(ev \<noteq> ctx_Done \<and> \<not> Ready (source l) now \<and>
    refresh f (source l) rsp APIToken_zero = Inr tok \<longrightarrow>
      (\<exists>l'. Start_iter f ev now rsp l = Some l' \<and>
         source l' = (source l)\<lparr>apiToken := tok\<rparr> \<and>
         timeout l' = Some ((RefreshIn tok - 10) * Second))) \<and>
   (ev' \<noteq> ctx_Done_main \<and> refresh_main f (source_main m) rsp' = Inr (d, ts_new) \<longrightarrow>
      (\<exists>m'. start_iter f ev' rsp' m = Some m' \<and> source_main m' = ts_new \<and>
         timeout_main m' = Some d) \<and>
      oauthToken_main ts_new = oauthToken_main (source_main m) \<and>
      d = (RefreshIn (apiToken_main ts_new) - 10) * Second) \<and>
   sint (((r :: int64) - 10) * Second) = signed_take_bit 63 ((sint r - 10) * 1000000000) \<and>
   (- 9223372026 \<le> sint r \<and> sint r \<le> 9223372046 \<longrightarrow>
      sint ((r - 10) * Second) = (sint r - 10) * 1000000000 \<and>
      (0 <s (r - 10) * Second) = (10 < sint r))"
proof -
  have a: "\<exists>l'. Start_iter f ev now rsp l = Some l' \<and>
         source l' = (source l)\<lparr>apiToken := tok\<rparr> \<and>
         timeout l' = Some ((RefreshIn tok - 10) * Second)"
    if "ev \<noteq> ctx_Done" "\<not> Ready (source l) now"
      "refresh f (source l) rsp APIToken_zero = Inr tok"
    using Start_iter_success [OF that] by blast
  have b: "(\<exists>m'. start_iter f ev' rsp' m = Some m' \<and> source_main m' = ts_new \<and>
         timeout_main m' = Some d) \<and>
      oauthToken_main ts_new = oauthToken_main (source_main m) \<and>
      d = (RefreshIn (apiToken_main ts_new) - 10) * Second"
    if "ev' \<noteq> ctx_Done_main" "refresh_main f (source_main m) rsp' = Inr (d, ts_new)"
    using start_iter_success [OF that] refresh_main_success [OF that(2)] by simp
  have c: "sint ((r - 10) * Second) = (sint r - 10) * 1000000000 \<and>
        (0 <s (r - 10) * Second) = (10 < sint r)"
    if "- 9223372026 \<le> sint r" "sint r \<le> 9223372046"
    using sint_delay [OF that] by (simp add: word_sless_alt)
  show ?thesis using a b c sint_delay_wrap [of r] by blast
qed

text \<open>
  The first exchange, at time 100, returns \<open>refresh_in\<close> 1500: both revisions store the
  token and arm the timer with 1490 seconds.
\<close>

theorem successful_exchange_delay_witness:
  "first_fired \<noteq> ctx_Done \<and>
   \<not> Ready (source (Start_init (NewTokenSource ''abc''))) 100 \<and>
   refresh foldName_std (source (Start_init (NewTokenSource ''abc'')))
     (Response 200 (token_body ''t1'' 1900 1500)) APIToken_zero =
     Inr \<lparr>ExpiresAt = 1900, RefreshIn = 1500, Token = ''t1''\<rparr> \<and>
   Start_iter foldName_std first_fired 100 (Response 200 (token_body ''t1'' 1900 1500))
     (Start_init (NewTokenSource ''abc'')) = Some loop_after_first \<and>
   timeout loop_after_first = Some ((1500 - 10) * Second) \<and>
   first_fired_main \<noteq> ctx_Done_main \<and>
   refresh_main foldName_std
     (source_main (start_init \<lparr>apiToken_main = APIToken_main_zero, oauthToken_main = ''abc''\<rparr>))
     (Response 200 (token_body ''t1'' 1900 1500)) = Inr ((1500 - 10) * Second, ts_1900_main) \<and>
   map_option source_main
     (start_iter foldName_std first_fired_main (Response 200 (token_body ''t1'' 1900 1500))
        (start_init \<lparr>apiToken_main = APIToken_main_zero, oauthToken_main = ''abc''\<rparr>)) =
     Some ts_1900_main \<and>
   Option.bind
     (start_iter foldName_std first_fired_main (Response 200 (token_body ''t1'' 1900 1500))
        (start_init \<lparr>apiToken_main = APIToken_main_zero, oauthToken_main = ''abc''\<rparr>))
     timeout_main = Some ((1500 - 10) * Second) \<and>
   - 9223372026 \<le> sint (1500 :: int64) \<and> sint (1500 :: int64) \<le> 9223372046 \<and>
   sint ((1500 - 10) * Second) = 1490 * 1000000000 \<and>
   (0 <s (1500 - 10) * Second)"
proof -
  have r: "refresh foldName_std (source (Start_init (NewTokenSource ''abc'')))
     (Response 200 (token_body ''t1'' 1900 1500)) APIToken_zero =
     Inr \<lparr>ExpiresAt = 1900, RefreshIn = 1500, Token = ''t1''\<rparr>"
    using refresh_token_body [of 1900 1500 foldName_std _ "''t1''"]
    by (simp add: StatusOK_def)
  have n: "\<not> Ready (source (Start_init (NewTokenSource ''abc''))) 100"
    by (simp add: Start_init_def NewTokenSource_def APIToken_zero_def Ready_def ready_def
        word_sless_alt)
  have i: "Start_iter foldName_std first_fired 100 (Response 200 (token_body ''t1'' 1900 1500))
     (Start_init (NewTokenSource ''abc'')) = Some loop_after_first"
    using n r
    by (simp add: Start_iter_def Let_def Start_init_def loop_after_first_def ts_1900_def
        NewTokenSource_def Second_def)
  have q: "refresh_main foldName_std
     (source_main (start_init \<lparr>apiToken_main = APIToken_main_zero, oauthToken_main = ''abc''\<rparr>))
     (Response 200 (token_body ''t1'' 1900 1500)) = Inr ((1500 - 10) * Second, ts_1900_main)"
    using refresh_main_token_body [of 1900 1500 foldName_std _ "''t1''"]
    by (simp add: StatusOK_def start_init_def ts_1900_main_def)
  note th = successful_exchange_delay [where ev = first_fired
      and l = "Start_init (NewTokenSource ''abc'')" and now = 100 and f = foldName_std
      and rsp = "Response 200 (token_body ''t1'' 1900 1500)"
      and tok = "\<lparr>ExpiresAt = 1900, RefreshIn = 1500, Token = ''t1''\<rparr>"
      and ev' = first_fired_main
      and m = "start_init \<lparr>apiToken_main = APIToken_main_zero, oauthToken_main = ''abc''\<rparr>"
      and rsp' = "Response 200 (token_body ''t1'' 1900 1500)"
      and d = "(1500 - 10) * Second" and ts_new = ts_1900_main and r = 1500]
  have m: "map_option source_main
     (start_iter foldName_std first_fired_main (Response 200 (token_body ''t1'' 1900 1500))
        (start_init \<lparr>apiToken_main = APIToken_main_zero, oauthToken_main = ''abc''\<rparr>)) =
     Some ts_1900_main \<and>
   Option.bind
     (start_iter foldName_std first_fired_main (Response 200 (token_body ''t1'' 1900 1500))
        (start_init \<lparr>apiToken_main = APIToken_main_zero, oauthToken_main = ''abc''\<rparr>))
     timeout_main = Some ((1500 - 10) * Second)"
    using th q by auto
  have s: "sint ((1500 - 10) * Second) = 1490 * 1000000000 \<and> (0 <s (1500 - 10) * Second)"
    using th by simp
  show ?thesis
    using r n i q m s by (simp add: loop_after_first_def Second_def)
qed

text \<open>
  The endpoint answers 200 with \<open>expires_at\<close> 50 while the clock reads 100: the exchange
  succeeds, the token is stored, and \<open>Ready\<close> is false right after the write.
\<close>

theorem stored_token_already_expired:
  "map_option source
     (Start_iter foldName_std first_fired 100 (Response 200 (token_body ''t1'' 50 1800))
        (Start_init (NewTokenSource ''abc''))) =
     Some \<lparr>apiToken = \<lparr>ExpiresAt = 50, RefreshIn = 1800, Token = ''t1''\<rparr>,
            oauthToken = ''abc''\<rparr> \<and>
   \<not> Ready \<lparr>apiToken = \<lparr>ExpiresAt = 50, RefreshIn = 1800, Token = ''t1''\<rparr>,
             oauthToken = ''abc''\<rparr> 100 \<and>
   \<not> ((100 :: int64) <s 50)"
  by (simp add: Start_iter_def Start_init_def NewTokenSource_def APIToken_zero_def Ready_def
      ready_def refresh_def StatusOK_def Unmarshal_APIToken_def token_body_def find_field_def
      APIToken_names_def APIToken_store_def Let_def Second_def word_sless_alt)

text \<open>
  C6, amended. A successful exchange stores the \<open>expires_at\<close> the endpoint returned, with
  no check against the clock: right after the write \<open>Ready\<close> is true exactly when that
  value is strictly after the current Unix time. \<open>Ready\<close> is false at and after the
  stored \<open>ExpiresAt\<close>. The all-zero token of a new token source is not valid at any
  non-negative Unix time, so \<open>Ready\<close> is false before the first successful exchange.
\<close>

theorem Ready_after_write:
  assumes "ev \<noteq> ctx_Done" "\<not> Ready (source l) now"
    "refresh f (source l) rsp APIToken_zero = Inr tok"
  shows "(\<exists>l'. Start_iter f ev now rsp l = Some l' \<and>
       source l' = (source l)\<lparr>apiToken := tok\<rparr> \<and>
       Ready (source l') now = (now <s ExpiresAt tok) \<and>
       (\<forall>t. ExpiresAt tok \<le>s t \<longrightarrow> \<not> Ready (source l') t)) \<and>
     (0 \<le>s now' \<longrightarrow> \<not> Ready (NewTokenSource oauth) now')"
proof -
  obtain l' where l': "Start_iter f ev now rsp l = Some l'"
      "source l' = (source l)\<lparr>apiToken := tok\<rparr>"
    using Start_iter_success [OF assms] by blast
  have a: "Ready (source l') now = (now <s ExpiresAt tok)"
    using l'(2) by (simp add: Ready_def ready_def)
  have b: "\<not> Ready (source l') t" if "ExpiresAt tok \<le>s t" for t
    using that l'(2) by (simp add: Ready_def ready_def word_sless_alt word_sle_eq)
  have c: "\<not> Ready (NewTokenSource oauth) now'" if "0 \<le>s now'"
    using that
    by (simp add: Ready_def ready_def NewTokenSource_def APIToken_zero_def word_sless_alt
        word_sle_eq)
  show ?thesis using l' a b c by auto
qed

text \<open>
  At time 100 the endpoint returns a token that expires at 1900: \<open>Ready\<close> is true at 100 and
  at 1899 and false at 1900.
\<close>

theorem Ready_after_write_witness:
  "first_fired \<noteq> ctx_Done \<and>
   \<not> Ready (source (Start_init (NewTokenSource ''abc''))) 100 \<and>
   refresh foldName_std (source (Start_init (NewTokenSource ''abc'')))
     (Response 200 (token_body ''t1'' 1900 1500)) APIToken_zero =
     Inr \<lparr>ExpiresAt = 1900, RefreshIn = 1500, Token = ''t1''\<rparr> \<and>
   (100 :: int64) <s 1900 \<and> (1900 :: int64) \<le>s 1900 \<and> (0 :: int64) \<le>s 100 \<and>
   map_option source
     (Start_iter foldName_std first_fired 100 (Response 200 (token_body ''t1'' 1900 1500))
        (Start_init (NewTokenSource ''abc''))) = Some ts_1900 \<and>
   Ready ts_1900 100 \<and> Ready ts_1900 1899 \<and> \<not> Ready ts_1900 1900 \<and>
   \<not> Ready (NewTokenSource ''abc'') 100"
proof -
  have r: "refresh foldName_std (source (Start_init (NewTokenSource ''abc'')))
     (Response 200 (token_body ''t1'' 1900 1500)) APIToken_zero =
     Inr \<lparr>ExpiresAt = 1900, RefreshIn = 1500, Token = ''t1''\<rparr>"
    using refresh_token_body [of 1900 1500 foldName_std _ "''t1''"]
    by (simp add: StatusOK_def)
  have n: "\<not> Ready (source (Start_init (NewTokenSource ''abc''))) 100"
    by (simp add: Start_init_def NewTokenSource_def APIToken_zero_def Ready_def ready_def
        word_sless_alt)
  have e: "first_fired \<noteq> ctx_Done" by simp
  have k: "Ready ts_1900 1899"
    by (simp add: ts_1900_def Ready_def ready_def word_sless_alt)
  show ?thesis
    using Ready_after_write [OF e n r, of 100 "''abc''"] r n k
    by (auto simp: ts_1900_def Start_init_def NewTokenSource_def word_sless_alt word_sle_eq
        Ready_def ready_def APIToken_zero_def)
qed

section \<open>Decoding the answer of the token endpoint\<close>

lemma store_int64_None: "(store_int64 v old = None) = (\<not> fits_int64 v)"
  by (cases v) simp_all

lemma store_string_None: "(store_string v old = None) = (\<not> fits_string v)"
  by (cases v) simp_all

lemma APIToken_store_None: "(APIToken_store n v t = None) = (\<not> field_fits n v)"
  by (simp add: APIToken_store_def field_fits_def store_int64_None store_string_None)

lemma object_into_APIToken:
  "(object_into APIToken_store f APIToken_names ms t = None) = (\<not> list_all (member_fits f) ms)"
proof (induction ms arbitrary: t)
  case Nil
  then show ?case by simp
next
  case (Cons m ms)
  obtain k v where m: "m = (k, v)" by (cases m) auto
  show ?case
  proof (cases "find_field f APIToken_names k")
    case None
    then show ?thesis using Cons.IH [of t] m by simp
  next
    case found: (Some n)
    show ?thesis
    proof (cases "APIToken_store n v t")
      case None
      then have "\<not> field_fits n v" by (simp add: APIToken_store_None)
      then show ?thesis using None found m by simp
    next
      case (Some t')
      then have "field_fits n v" using APIToken_store_None [of n v t] by simp
      then show ?thesis using Some found m Cons.IH [of t'] by simp
    qed
  qed
qed

lemma Unmarshal_APIToken_decodable:
  "(Unmarshal_APIToken f data t = None) = (\<not> decodable f data)"
proof (cases data)
  case Unparseable
  then show ?thesis by (simp add: Unmarshal_APIToken_def)
next
  case (Parsed v)
  then show ?thesis
    by (cases v) (simp_all add: Unmarshal_APIToken_def object_into_APIToken)
qed

lemma foldName_std_selects:
  "find_field foldName_std APIToken_names ''TOKEN'' = Some ''token''"
  "find_field foldName_std APIToken_names (''to'' @ [CHR 0xE2, CHR 0x84, CHR 0xAA] @ ''en'') =
     Some ''token''"
  "find_field foldName_std APIToken_names (''expire'' @ [CHR 0xC5, CHR 0xBF] @ ''_at'') =
     Some ''expires_at''"
  "find_field foldName_std APIToken_names ''tokens'' = None"
  by code_simp+

lemma find_field_in_names: "find_field f names k = Some n \<Longrightarrow> n \<in> set names"
  by (auto simp: find_field_def find_Some_iff split: if_splits)

lemma APIToken_store_others:
  "APIToken_store n v t = Some t' \<Longrightarrow>
   (n \<noteq> ''expires_at'' \<longrightarrow> ExpiresAt t' = ExpiresAt t) \<and>
   (n \<noteq> ''refresh_in'' \<longrightarrow> RefreshIn t' = RefreshIn t) \<and>
   (n = ''expires_at'' \<or> n = ''refresh_in'' \<longrightarrow> Token t' = Token t)"
  by (auto simp: APIToken_store_def split: if_splits)

lemma object_into_keeps:
  "object_into APIToken_store f APIToken_names ms t = Some t' \<Longrightarrow>
   ((\<forall>(k, v) \<in> set ms. find_field f APIToken_names k \<noteq> Some ''expires_at'') \<longrightarrow>
      ExpiresAt t' = ExpiresAt t) \<and>
   ((\<forall>(k, v) \<in> set ms. find_field f APIToken_names k \<noteq> Some ''refresh_in'') \<longrightarrow>
      RefreshIn t' = RefreshIn t) \<and>
   ((\<forall>(k, v) \<in> set ms. find_field f APIToken_names k \<noteq> Some ''token'') \<longrightarrow>
      Token t' = Token t)"
proof (induction ms arbitrary: t)
  case Nil
  then show ?case by simp
next
  case (Cons m ms)
  obtain k v where m: "m = (k, v)" by (cases m) auto
  show ?case
  proof (cases "find_field f APIToken_names k")
    case None
    then have "object_into APIToken_store f APIToken_names ms t = Some t'"
      using Cons.prems m by simp
    from Cons.IH [OF this] show ?thesis using m by simp
  next
    case found: (Some n)
    then obtain t1 where t1: "APIToken_store n v t = Some t1"
        "object_into APIToken_store f APIToken_names ms t1 = Some t'"
      using Cons.prems m by (auto split: option.splits)
    have n: "n = ''expires_at'' \<or> n = ''refresh_in'' \<or> n = ''token''"
      using find_field_in_names [OF found] by (simp add: APIToken_names_def)
    show ?thesis
      using Cons.IH [OF t1(2)] APIToken_store_others [OF t1(1)] found m n by auto
  qed
qed

text \<open>
  A 200 answer whose body is an object with a \<open>token\<close> and neither \<open>expires_at\<close> nor
  \<open>refresh_in\<close>: the exchange succeeds and the token is stored, the missing fields zero.
\<close>

theorem missing_fields_accepted:
  "refresh foldName_std (NewTokenSource ''abc'') (Response 200 token_only_body) APIToken_zero =
     Inr \<lparr>ExpiresAt = 0, RefreshIn = 0, Token = ''x''\<rparr> \<and>
   map_option source
     (Start_iter foldName_std first_fired 100 (Response 200 token_only_body)
        (Start_init (NewTokenSource ''abc''))) =
     Some \<lparr>apiToken = \<lparr>ExpiresAt = 0, RefreshIn = 0, Token = ''x''\<rparr>, oauthToken = ''abc''\<rparr>"
  by (simp add: Start_iter_def Start_init_def NewTokenSource_def APIToken_zero_def Ready_def
      ready_def refresh_def StatusOK_def Unmarshal_APIToken_def token_only_body_def
      find_field_def APIToken_names_def APIToken_store_def Let_def word_sless_alt)

text \<open>
  C7, amended. For a 200 answer the exchange fails, with the decode error, exactly when
  the body is not accepted by the decoder: it is not a JSON text, or it is a JSON value
  other than \<open>null\<close> or an object, or it is an object in which some member that selects
  a field (by its name, exactly or under case folding) carries a value the field does
  not take (a \<open>token\<close> that is neither a string nor \<open>null\<close>; an \<open>expires_at\<close> or
  \<open>refresh_in\<close> that is neither an integer literal in the 64-bit range nor \<open>null\<close>). After
  such a failure no token is stored. No field is required: an object with all three
  fields well typed gives the token with these values, and whenever an object is
  accepted, a field that no member of it selects keeps its zero value, as all three do
  for the empty object.
\<close>

theorem decode_failure_characterised:
  "isl (refresh f t (Response StatusOK data) APIToken_zero) = (\<not> decodable f data) \<and>
   (\<not> decodable f data \<longrightarrow>
      refresh f t (Response StatusOK data) APIToken_zero = Inl failed_to_unmarshal_token) \<and>
   (\<not> decodable f data \<and> ev \<noteq> ctx_Done \<and> \<not> Ready (source l) now \<longrightarrow>
      map_option source (Start_iter f ev now (Response StatusOK data) l) = Some (source l)) \<and>
   \<not> decodable f Unparseable \<and>
   (- (2 ^ 63) \<le> e \<and> e < 2 ^ 63 \<and> - (2 ^ 63) \<le> r \<and> r < 2 ^ 63 \<longrightarrow>
      refresh f t (Response StatusOK (token_body tk e r)) APIToken_zero =
        Inr \<lparr>ExpiresAt = word_of_int e, RefreshIn = word_of_int r, Token = tk\<rparr>) \<and>
   refresh f t (Response StatusOK (Parsed (JObject []))) APIToken_zero = Inr APIToken_zero \<and>
   (refresh f t (Response StatusOK (Parsed (JObject ms))) APIToken_zero = Inr tok \<longrightarrow>
      ((\<forall>(k, v) \<in> set ms. find_field f APIToken_names k \<noteq> Some ''expires_at'') \<longrightarrow>
         ExpiresAt tok = 0) \<and>
      ((\<forall>(k, v) \<in> set ms. find_field f APIToken_names k \<noteq> Some ''refresh_in'') \<longrightarrow>
         RefreshIn tok = 0) \<and>
      ((\<forall>(k, v) \<in> set ms. find_field f APIToken_names k \<noteq> Some ''token'') \<longrightarrow>
         Token tok = []))"
proof -
  have g: "((\<forall>(k, v) \<in> set ms. find_field f APIToken_names k \<noteq> Some ''expires_at'') \<longrightarrow>
         ExpiresAt tok = 0) \<and>
      ((\<forall>(k, v) \<in> set ms. find_field f APIToken_names k \<noteq> Some ''refresh_in'') \<longrightarrow>
         RefreshIn tok = 0) \<and>
      ((\<forall>(k, v) \<in> set ms. find_field f APIToken_names k \<noteq> Some ''token'') \<longrightarrow>
         Token tok = [])"
    if "refresh f t (Response StatusOK (Parsed (JObject ms))) APIToken_zero = Inr tok"
  proof -
    have "object_into APIToken_store f APIToken_names ms APIToken_zero = Some tok"
      using that by (simp add: refresh_def Unmarshal_APIToken_def split: option.splits)
    from object_into_keeps [OF this] show ?thesis by (simp add: APIToken_zero_def)
  qed
  have a: "isl (refresh f t (Response StatusOK data) APIToken_zero) = (\<not> decodable f data)"
    using Unmarshal_APIToken_decodable [of f data APIToken_zero]
    by (simp add: refresh_fails_iff)
  have b: "refresh f t (Response StatusOK data) APIToken_zero = Inl failed_to_unmarshal_token"
    if "\<not> decodable f data"
    using that Unmarshal_APIToken_decodable [of f data APIToken_zero]
    by (simp add: refresh_def)
  have c: "map_option source (Start_iter f ev now (Response StatusOK data) l) = Some (source l)"
    if "\<not> decodable f data" "ev \<noteq> ctx_Done" "\<not> Ready (source l) now"
  proof -
    have "exchange_fails f (Response StatusOK data)"
      using that(1) Unmarshal_APIToken_decodable [of f data APIToken_zero] by simp
    from Start_iter_failure [OF that(2,3) this] show ?thesis by auto
  qed
  have d: "refresh f t (Response StatusOK (Parsed (JObject []))) APIToken_zero = Inr APIToken_zero"
    by (simp add: refresh_def Unmarshal_APIToken_def)
  have e: "- (2 ^ 63) \<le> e \<and> e < 2 ^ 63 \<and> - (2 ^ 63) \<le> r \<and> r < 2 ^ 63 \<longrightarrow>
      refresh f t (Response StatusOK (token_body tk e r)) APIToken_zero =
        Inr \<lparr>ExpiresAt = word_of_int e, RefreshIn = word_of_int r, Token = tk\<rparr>"
    using refresh_token_body [of e r f t tk] by simp
  have n: "\<not> decodable f Unparseable" by simp
  show ?thesis using a b c d e n g by blast
qed

text \<open>
  A body that is not JSON, and a body whose \<open>Expires_At\<close> (a folded match of the field
  name) is a string: both fail with the decode error and leave the token source alone.
\<close>

theorem decode_failure_characterised_witness:
  "\<not> decodable foldName_std mistyped_body \<and> \<not> decodable foldName_std Unparseable \<and>
   first_fired \<noteq> ctx_Done \<and>
   \<not> Ready (source (Start_init (NewTokenSource ''abc''))) 100 \<and>
   refresh foldName_std (NewTokenSource ''abc'') (Response 200 mistyped_body) APIToken_zero =
     Inl failed_to_unmarshal_token \<and>
   map_option source
     (Start_iter foldName_std first_fired 100 (Response 200 mistyped_body)
        (Start_init (NewTokenSource ''abc''))) = Some (NewTokenSource ''abc'') \<and>
   - (2 ^ 63) \<le> (1900 :: int) \<and> (1900 :: int) < 2 ^ 63 \<and>
   - (2 ^ 63) \<le> (1500 :: int) \<and> (1500 :: int) < 2 ^ 63 \<and>
   refresh foldName_std (NewTokenSource ''abc'') (Response 200 (token_body ''t1'' 1900 1500))
     APIToken_zero = Inr \<lparr>ExpiresAt = 1900, RefreshIn = 1500, Token = ''t1''\<rparr> \<and>
   refresh foldName_std (NewTokenSource ''abc'')
     (Response 200 (Parsed (JObject [(''token'', JString ''x'')]))) APIToken_zero =
     Inr \<lparr>ExpiresAt = 0, RefreshIn = 0, Token = ''x''\<rparr> \<and>
   find_field foldName_std APIToken_names ''token'' \<noteq> Some ''expires_at'' \<and>
   find_field foldName_std APIToken_names ''token'' \<noteq> Some ''refresh_in'' \<and>
   ExpiresAt \<lparr>ExpiresAt = 0, RefreshIn = 0, Token = ''x''\<rparr> = 0"
proof -
  have m: "\<not> decodable foldName_std mistyped_body"
    by code_simp
  have n: "\<not> Ready (source (Start_init (NewTokenSource ''abc''))) 100"
    by (simp add: Start_init_def NewTokenSource_def APIToken_zero_def Ready_def ready_def
        word_sless_alt)
  have x: "refresh foldName_std (NewTokenSource ''abc'')
     (Response 200 (Parsed (JObject [(''token'', JString ''x'')]))) APIToken_zero =
     Inr \<lparr>ExpiresAt = 0, RefreshIn = 0, Token = ''x''\<rparr>"
    by (simp add: refresh_def StatusOK_def Unmarshal_APIToken_def find_field_def
        APIToken_names_def APIToken_store_def APIToken_zero_def)
  have k: "find_field foldName_std APIToken_names ''token'' \<noteq> Some ''expires_at''"
      "find_field foldName_std APIToken_names ''token'' \<noteq> Some ''refresh_in''"
    by (simp_all add: find_field_def APIToken_names_def)
  note th = decode_failure_characterised [where f = foldName_std and data = mistyped_body
        and t = "NewTokenSource ''abc''" and ev = first_fired and now = 100
        and l = "Start_init (NewTokenSource ''abc'')" and e = 1900 and r = 1500
        and tk = "''t1''" and ms = "[(''token'', JString ''x'')]"
        and tok = "\<lparr>ExpiresAt = 0, RefreshIn = 0, Token = ''x''\<rparr>"]
  have p: "refresh foldName_std (NewTokenSource ''abc'') (Response 200 mistyped_body)
      APIToken_zero = Inl failed_to_unmarshal_token \<and>
    map_option source
     (Start_iter foldName_std first_fired 100 (Response 200 mistyped_body)
        (Start_init (NewTokenSource ''abc''))) = Some (NewTokenSource ''abc'') \<and>
    refresh foldName_std (NewTokenSource ''abc'') (Response 200 (token_body ''t1'' 1900 1500))
     APIToken_zero = Inr \<lparr>ExpiresAt = 1900, RefreshIn = 1500, Token = ''t1''\<rparr>"
    using th m n by (simp add: StatusOK_def Start_init_def)
  show ?thesis
    using m n x k p by simp
qed

section \<open>The credential file\<close>

text \<open>
  C10. Every entry of the decoded credential file is a possible result of
  \<open>parseOAuthToken\<close>: for any two entries, a run may return the \<open>oauth_token\<close> of the one
  and another run that of the other. When two entries carry different tokens the
  function has more than one possible result on the same file.
\<close>

theorem parseOAuthToken_any_entry:
  "Unmarshal_cfg f data [] = Some cfg \<Longrightarrow> (k1, o1) \<in> set cfg \<Longrightarrow> (k2, o2) \<in> set cfg \<Longrightarrow>
   Inr (OAuthToken o1) \<in> parseOAuthToken f (ReadFile_data data) \<and>
   Inr (OAuthToken o2) \<in> parseOAuthToken f (ReadFile_data data) \<and>
   (OAuthToken o1 \<noteq> OAuthToken o2 \<longrightarrow> (\<forall>x. parseOAuthToken f (ReadFile_data data) \<noteq> {x}))"
proof -
  assume u: "Unmarshal_cfg f data [] = Some cfg" and m1: "(k1, o1) \<in> set cfg"
    and m2: "(k2, o2) \<in> set cfg"
  have ne: "cfg \<noteq> []" using m1 by auto
  have p: "parseOAuthToken f (ReadFile_data data) = (\<lambda>(k, obj). Inr (OAuthToken obj)) ` set cfg"
    using u ne by (simp add: parseOAuthToken_def)
  have i1: "Inr (OAuthToken o1) \<in> parseOAuthToken f (ReadFile_data data)"
    unfolding p using m1 by force
  have i2: "Inr (OAuthToken o2) \<in> parseOAuthToken f (ReadFile_data data)"
    unfolding p using m2 by force
  show ?thesis using i1 i2 by auto
qed

text \<open>A file with two applications: either token may be the one returned.\<close>

theorem parseOAuthToken_any_entry_witness:
  "Unmarshal_cfg foldName_std two_apps [] =
     Some [(''github.com:app1'', \<lparr>User = ''u1'', OAuthToken = ''gho_A''\<rparr>),
           (''github.com:app2'', \<lparr>User = ''u2'', OAuthToken = ''gho_B''\<rparr>)] \<and>
   ''gho_A'' \<noteq> ''gho_B'' \<and>
   Inr ''gho_A'' \<in> parseOAuthToken foldName_std (ReadFile_data two_apps) \<and>
   Inr ''gho_B'' \<in> parseOAuthToken foldName_std (ReadFile_data two_apps) \<and>
   parseOAuthToken foldName_std (ReadFile_data two_apps) \<noteq> {Inr ''gho_A''}"
proof -
  have u: "Unmarshal_cfg foldName_std two_apps [] =
     Some [(''github.com:app1'', \<lparr>User = ''u1'', OAuthToken = ''gho_A''\<rparr>),
           (''github.com:app2'', \<lparr>User = ''u2'', OAuthToken = ''gho_B''\<rparr>)]"
    by (simp add: two_apps_def find_field_def TokenObject_names_def TokenObject_store_def
        TokenObject_zero_def)
  show ?thesis
    using parseOAuthToken_any_entry [OF u, of "''github.com:app1''"
        "\<lparr>User = ''u1'', OAuthToken = ''gho_A''\<rparr>" "''github.com:app2''"
        "\<lparr>User = ''u2'', OAuthToken = ''gho_B''\<rparr>"] u
    by simp
qed

end
